theory Spec2Isabelle
  imports Complex_Main
begin

section \<open>Python values and the object store\<close>

text \<open>
  The module \<^verbatim>\<open>coastseg/extracted_shoreline.py\<close> is glue code around three libraries
  (CoastSat, geopandas, ipyleaflet). Its behaviour is about which objects are created,
  shared and updated, so the model keeps Python's distinction between immutable values
  and mutable objects that live in a store and are known by their address.

  \<^item> \<open>val\<close>: what a Python variable holds: an immutable scalar or a reference.
    A float is kept as the rational number the double denotes; the module does no
    float arithmetic.
  \<^item> \<open>obj\<close>: a mutable object: a \<^verbatim>\<open>dict\<close> with string keys in insertion order, a
    \<^verbatim>\<open>list\<close>, a \<^verbatim>\<open>GeoDataFrame\<close> (its \<^verbatim>\<open>crs\<close> and its columns), a pandas
    \<^verbatim>\<open>Series\<close> (a column taken out of a frame), or any other library object (a numpy
    array, an ipyleaflet layer), of which only the class name is known.
\<close>

type_synonym addr = nat

datatype val =
    VNone
  | VBool bool
  | VInt int
  | VFloat rat
  | VStr string
  | VRef addr

datatype 'x obj =
    ODict "(string \<times> val) list"
  | OList "val list"
  | OGdf val "(string \<times> val list) list"
  | OSeries "val list"
  | OOther string 'x

type_synonym 'x heap = "'x obj list"

definition deref :: "'x heap \<Rightarrow> val \<Rightarrow> 'x obj option" where
  "deref h v = (case v of VRef a \<Rightarrow> (if a < length h then Some (h ! a) else None) | _ \<Rightarrow> None)"

datatype error =
    ValueError string
  | TypeError
  | KeyError val
  | IndexError
  | AttributeError string
  | AssertionError string
  | No_Extracted_Shoreline val
  | LibraryError string
  | Unmodelled string

text \<open>
  \<open>Unmodelled\<close> is not a Python exception: it marks the few places where the module
  would hand a mutation to a library object whose class the model does not know (item
  or attribute assignment on an object that is neither a dict, a list nor a
  GeoDataFrame). The model stops there instead of inventing a behaviour.
\<close>

subsection \<open>Dictionaries\<close>

text \<open>\<^verbatim>\<open>d[k] = v\<close>: an existing key keeps its place, a new key goes last.\<close>

fun dict_set :: "(string \<times> val) list \<Rightarrow> string \<Rightarrow> val \<Rightarrow> (string \<times> val) list" where
  "dict_set [] k v = [(k, v)]"
| "dict_set ((k', v') # d) k v = (if k' = k then (k, v) # d else (k', v') # dict_set d k v)"

subsection \<open>\<^verbatim>\<open>copy.deepcopy\<close>\<close>

text \<open>
  \<^verbatim>\<open>copy.deepcopy(x)\<close> returns an immutable value as it is and copies a container
  object into a new object, its members copied in turn. The memo maps every object
  already copied to its copy, so that shared and cyclic structures are copied once.
  A GeoDataFrame, a Series and a library object are copied as a whole (pandas does not
  copy the Python objects inside a frame recursively).

  \<open>deepcopy_vals h0 (h, m) vs\<close> copies the values \<open>vs\<close> from left to right. \<open>h0\<close> is the
  store when \<^verbatim>\<open>deepcopy\<close> was called, where the originals are read; \<open>h\<close> is the store
  being extended and \<open>m\<close> the memo. Python fills a new container member by member; the
  model reserves its address first and writes it once its members are copied, which
  gives the same store, since nothing reads the copy meanwhile. A reference outside the
  store cannot exist in Python; the model leaves it as it is.
\<close>

fun children :: "'x obj \<Rightarrow> val list" where
  "children (ODict d) = map snd d"
| "children (OList vs) = vs"
| "children (OGdf c cols) = []"
| "children (OSeries vs) = []"
| "children (OOther n x) = []"

fun rebuild :: "'x obj \<Rightarrow> val list \<Rightarrow> 'x obj" where
  "rebuild (ODict d) vs = ODict (zip (map fst d) vs)"
| "rebuild (OList _) vs = OList vs"
| "rebuild (OGdf c cols) vs = OGdf c cols"
| "rebuild (OSeries xs) vs = OSeries xs"
| "rebuild (OOther n x) vs = OOther n x"

type_synonym memo = "(addr \<times> addr) list"

definition visited :: "memo \<Rightarrow> addr set" where
  "visited m = fst ` set m"

definition unvisited :: "'x heap \<Rightarrow> memo \<Rightarrow> nat" where
  "unvisited h0 m = card ({..<length h0} - visited m)"

function deepcopy_vals ::
  "'x heap \<Rightarrow> 'x heap \<times> memo \<Rightarrow> val list \<Rightarrow> ('x heap \<times> memo) \<times> val list" where
  "deepcopy_vals h0 (h, m) [] = ((h, m), [])"
| "deepcopy_vals h0 (h, m) (v # vs) =
     (case v of
        VRef a \<Rightarrow>
          (if a < length h0 then
             (case map_of m a of
                Some y \<Rightarrow>
                  (case deepcopy_vals h0 (h, m) vs of (s', vs') \<Rightarrow> (s', VRef y # vs'))
              | None \<Rightarrow>
                  (case deepcopy_vals h0 (h @ [rebuild (h0 ! a) []], (a, length h) # m)
                          (children (h0 ! a)) of
                     ((h1, m1), cs) \<Rightarrow>
                       (case deepcopy_vals h0 (h1[length h := rebuild (h0 ! a) cs], m1) vs of
                          (s', vs') \<Rightarrow> (s', VRef (length h) # vs'))))
           else (case deepcopy_vals h0 (h, m) vs of (s', vs') \<Rightarrow> (s', v # vs')))
      | _ \<Rightarrow> (case deepcopy_vals h0 (h, m) vs of (s', vs') \<Rightarrow> (s', v # vs')))"
  by pat_completeness auto

lemma visited_Cons: "visited ((a, y) # m) = insert a (visited m)"
  by (simp add: visited_def)

text \<open>The memo only grows; this is what makes the copy of a finite store finish.\<close>

lemma deepcopy_vals_memo_grows:
  "deepcopy_vals_dom (h0, s, vs) \<Longrightarrow> deepcopy_vals h0 s vs = ((h', m'), vs') \<Longrightarrow>
     visited (snd s) \<subseteq> visited m'"
proof (induction h0 s vs arbitrary: h' m' vs' rule: deepcopy_vals.pinduct)
  case (1 h0 h m)
  then show ?case by (simp add: deepcopy_vals.psimps)
next
  case (2 h0 h m v vs)
  note dom = "2.hyps" and res = "2.prems"
  show ?case
  proof (cases "\<exists>a. v = VRef a \<and> a < length h0")
    case False
    then obtain s2 vs2 where r: "deepcopy_vals h0 (h, m) vs = (s2, vs2)" and "s2 = (h', m')"
      using res dom by (cases "deepcopy_vals h0 (h, m) vs")
        (auto simp: deepcopy_vals.psimps split: val.splits)
    with False "2.IH"(1,2,3,4,5,9) show ?thesis
      by (cases v) auto
  next
    case True
    then obtain a where v: "v = VRef a" and a: "a < length h0" by blast
    show ?thesis
    proof (cases "map_of m a")
      case (Some y)
      then obtain vs2 where "deepcopy_vals h0 (h, m) vs = ((h', m'), vs2)"
        using res dom v a by (cases "deepcopy_vals h0 (h, m) vs")
          (auto simp: deepcopy_vals.psimps)
      with "2.IH"(8)[OF v a Some] show ?thesis by simp
    next
      case None
      obtain h1 m1 cs where c: "deepcopy_vals h0 (h @ [rebuild (h0 ! a) []], (a, length h) # m)
                          (children (h0 ! a)) = ((h1, m1), cs)"
        by (metis surj_pair)
      then obtain vs2 where t: "deepcopy_vals h0 (h1[length h := rebuild (h0 ! a) cs], m1) vs
                                  = ((h', m'), vs2)"
        using res dom v a None
        by (cases "deepcopy_vals h0 (h1[length h := rebuild (h0 ! a) cs], m1) vs")
          (auto simp: deepcopy_vals.psimps)
      from "2.IH"(6)[OF v a None c] have "visited ((a, length h) # m) \<subseteq> visited m1" by simp
      moreover from "2.IH"(7)[OF v a None c[symmetric] refl t] have "visited m1 \<subseteq> visited m'"
        by simp
      ultimately show ?thesis by (auto simp: visited_Cons)
    qed
  qed
qed

lemma unvisited_insert:
  "a < length h0 \<Longrightarrow> map_of m a = None \<Longrightarrow> unvisited h0 ((a, y) # m) < unvisited h0 m"
proof -
  assume a: "a < length h0" and n: "map_of m a = None"
  from n have "a \<notin> visited m" by (simp add: map_of_eq_None_iff visited_def)
  with a have "{..<length h0} - visited ((a, y) # m) \<subset> {..<length h0} - visited m"
    by (auto simp: visited_Cons)
  then show ?thesis
    unfolding unvisited_def by (intro psubset_card_mono) auto
qed

lemma unvisited_mono:
  "visited m \<subseteq> visited m' \<Longrightarrow> unvisited h0 m' \<le> unvisited h0 m"
  unfolding unvisited_def by (intro card_mono) auto

lemma nested_call_smaller:
  assumes "deepcopy_vals_dom (h0, (h @ [o1], (a, length h) # m), cs0)"
    and "((h1, m1), cs) = deepcopy_vals h0 (h @ [o1], (a, length h) # m) cs0"
    and "a < length h0" and "map_of m a = None"
  shows "unvisited h0 m1 < unvisited h0 m"
proof -
  from deepcopy_vals_memo_grows[OF assms(1) assms(2)[symmetric]]
  have "visited ((a, length h) # m) \<subseteq> visited m1"
    by simp
  then have "unvisited h0 m1 \<le> unvisited h0 ((a, length h) # m)"
    by (rule unvisited_mono)
  moreover have "unvisited h0 ((a, length h) # m) < unvisited h0 m"
    using assms by (simp add: unvisited_insert)
  ultimately show ?thesis by simp
qed

termination deepcopy_vals
  apply (relation "measures [\<lambda>(h0, (h, m), vs). unvisited h0 m,
                             \<lambda>(h0, (h, m), vs). length vs]")
  apply (simp_all add: unvisited_insert)
  by (auto dest: nested_call_smaller)

declare deepcopy_vals.simps [simp del]

section \<open>The world the module runs in\<close>

text \<open>
  Everything the module does not define itself is a call to a library: the CoastSat
  functions (\<^verbatim>\<open>SDS_download\<close>, \<^verbatim>\<open>SDS_shoreline\<close>, \<^verbatim>\<open>SDS_tools\<close>), the helpers of
  \<^verbatim>\<open>coastseg.common\<close> (not part of this file), numpy, \<^verbatim>\<open>json\<close>, ipyleaflet, and the
  methods and attributes of geopandas and other library objects. A library is a
  parameter of the model: given the name of the function, the store and the arguments
  it either raises or returns a value together with the objects it has created. It reads
  the store and adds to it; it does not change an object that exists already (the spec
  treats the libraries as black boxes with a call/return contract).
\<close>

datatype fname =
    SDS_download_get_metadata
  | SDS_shoreline_extract_shorelines
  | SDS_tools_remove_duplicates
  | SDS_tools_remove_inaccurate_georef
  | SDS_tools_output_to_gdf
  | common_make_coastsat_compatible
  | common_is_list_empty
  | common_get_colors
  | np_vstack
  | np_zeros
  | np_insert
  | json_loads
  | ipyleaflet_GeoJSON
  | builtin_len
  | object_getitem
  | Method string
  | Attribute string

type_synonym 'x library = "fname \<Rightarrow> 'x heap \<Rightarrow> val list \<Rightarrow> error + ('x obj list \<times> val)"

type_synonym call_event = "fname \<times> val list \<times> (error + val)"

text \<open>A file written by \<^verbatim>\<open>GeoDataFrame.to_file\<close>: driver, encoding, and the frame's crs and columns.\<close>

type_synonym gdf_file = "string \<times> string \<times> val \<times> (string \<times> val list) list"

text \<open>
  The state: the object store, the library calls made so far (with their arguments and
  outcome), the file system, what was printed, and the four attributes of the
  \<^verbatim>\<open>Extracted_Shoreline\<close> instance at hand. \<^verbatim>\<open>logger.info\<close> lines are left out, except
  for the attribute they read.
\<close>

record 'x world =
  heap :: "'x heap"
  calls :: "call_event list"
  files :: "string \<Rightarrow> gdf_file option"
  stdout :: "string list"
  self_gdf :: val
  self_roi_id :: val
  self_extracted_shorelines :: val
  self_shoreline_settings :: val

text \<open>
  A statement runs in a world and leaves a world, with either the exception it raised
  or its value. The world is returned in both cases: an exception does not undo what
  was done before it.
\<close>

type_synonym ('x, 'a) prog = "'x world \<Rightarrow> 'x world \<times> (error + 'a)"

definition ret :: "'a \<Rightarrow> ('x, 'a) prog" where
  "ret x w = (w, Inr x)"

definition raise :: "error \<Rightarrow> ('x, 'a) prog" where
  "raise e w = (w, Inl e)"

definition bind :: "('x, 'a) prog \<Rightarrow> ('a \<Rightarrow> ('x, 'b) prog) \<Rightarrow> ('x, 'b) prog" where
  "bind m f w = (case m w of (w1, Inl e) \<Rightarrow> (w1, Inl e) | (w1, Inr x) \<Rightarrow> f x w1)"

definition gets :: "('x world \<Rightarrow> 'a) \<Rightarrow> ('x, 'a) prog" where
  "gets f w = (w, Inr (f w))"

definition lift :: "error + 'a \<Rightarrow> ('x, 'a) prog" where
  "lift r w = (w, r)"

definition alloc :: "'x obj \<Rightarrow> ('x, val) prog" where
  "alloc ob w = (w\<lparr>heap := heap w @ [ob]\<rparr>, Inr (VRef (length (heap w))))"

definition store :: "addr \<Rightarrow> 'x obj \<Rightarrow> ('x, unit) prog" where
  "store a ob w = (w\<lparr>heap := (heap w)[a := ob]\<rparr>, Inr ())"

definition call :: "'x library \<Rightarrow> fname \<Rightarrow> val list \<Rightarrow> ('x, val) prog" where
  "call lib f args w =
     (case lib f (heap w) args of
        Inl e \<Rightarrow> (w\<lparr>calls := calls w @ [(f, args, Inl e)]\<rparr>, Inl e)
      | Inr (new, r) \<Rightarrow>
          (w\<lparr>heap := heap w @ new, calls := calls w @ [(f, args, Inr r)]\<rparr>, Inr r))"

text \<open>Assignments to the attributes of \<^verbatim>\<open>self\<close>.\<close>

definition set_gdf :: "val \<Rightarrow> ('x, unit) prog" where
  "set_gdf v w = (w\<lparr>self_gdf := v\<rparr>, Inr ())"

definition set_roi_id :: "val \<Rightarrow> ('x, unit) prog" where
  "set_roi_id v w = (w\<lparr>self_roi_id := v\<rparr>, Inr ())"

definition set_extracted_shorelines :: "val \<Rightarrow> ('x, unit) prog" where
  "set_extracted_shorelines v w = (w\<lparr>self_extracted_shorelines := v\<rparr>, Inr ())"

definition set_shoreline_settings :: "val \<Rightarrow> ('x, unit) prog" where
  "set_shoreline_settings v w = (w\<lparr>self_shoreline_settings := v\<rparr>, Inr ())"

fun foreach :: "('a \<Rightarrow> ('x, 'b) prog) \<Rightarrow> 'a list \<Rightarrow> ('x, 'b list) prog" where
  "foreach f [] = ret []"
| "foreach f (x # xs) = bind (f x) (\<lambda>y. bind (foreach f xs) (\<lambda>ys. ret (y # ys)))"

fun for_enumerate :: "(nat \<Rightarrow> 'a \<Rightarrow> ('x, unit) prog) \<Rightarrow> nat \<Rightarrow> 'a list \<Rightarrow> ('x, unit) prog" where
  "for_enumerate body i [] = ret ()"
| "for_enumerate body i (x # xs) = bind (body i x) (\<lambda>_. for_enumerate body (Suc i) xs)"

section \<open>The Python operations the module uses\<close>

definition isinstance_str :: "val \<Rightarrow> bool" where
  "isinstance_str v = (case v of VStr _ \<Rightarrow> True | _ \<Rightarrow> False)"

definition isinstance_GeoDataFrame :: "'x heap \<Rightarrow> val \<Rightarrow> bool" where
  "isinstance_GeoDataFrame h v = (case deref h v of Some (OGdf _ _) \<Rightarrow> True | _ \<Rightarrow> False)"

definition isinstance_dict :: "'x heap \<Rightarrow> val \<Rightarrow> bool" where
  "isinstance_dict h v = (case deref h v of Some (ODict _) \<Rightarrow> True | _ \<Rightarrow> False)"

text \<open>The number of rows of a frame is the length of its columns.\<close>

definition gdf_nrows :: "(string \<times> val list) list \<Rightarrow> nat" where
  "gdf_nrows cols = (case cols of [] \<Rightarrow> 0 | c # _ \<Rightarrow> length (snd c))"

text \<open>\<^verbatim>\<open>DataFrame.empty\<close>: one of the two axes has length 0.\<close>

definition gdf_empty :: "'x heap \<Rightarrow> val \<Rightarrow> bool" where
  "gdf_empty h v =
     (case deref h v of Some (OGdf _ cols) \<Rightarrow> cols = [] \<or> gdf_nrows cols = 0 | _ \<Rightarrow> False)"

text \<open>
  \<^verbatim>\<open>x == {}\<close>: a dict without items. A library object compares unequal to \<^verbatim>\<open>{}\<close> in
  the model.
\<close>

definition eq_empty_dict :: "'x heap \<Rightarrow> val \<Rightarrow> bool" where
  "eq_empty_dict h v = (case deref h v of Some (ODict d) \<Rightarrow> d = [] | _ \<Rightarrow> False)"

text \<open>\<^verbatim>\<open>f"{type(x)}"\<close>\<close>

definition type_repr :: "'x heap \<Rightarrow> val \<Rightarrow> string" where
  "type_repr h v =
     (case v of
        VNone \<Rightarrow> ''<class 'NoneType'>''
      | VBool _ \<Rightarrow> ''<class 'bool'>''
      | VInt _ \<Rightarrow> ''<class 'int'>''
      | VFloat _ \<Rightarrow> ''<class 'float'>''
      | VStr _ \<Rightarrow> ''<class 'str'>''
      | VRef _ \<Rightarrow>
          (case deref h v of
             Some (ODict _) \<Rightarrow> ''<class 'dict'>''
           | Some (OList _) \<Rightarrow> ''<class 'list'>''
           | Some (OGdf _ _) \<Rightarrow> ''<class 'geopandas.geodataframe.GeoDataFrame'>''
           | Some (OSeries _) \<Rightarrow> ''<class 'pandas.core.series.Series'>''
           | Some (OOther n _) \<Rightarrow> ''<class '' @ [CHR 0x27] @ n @ [CHR 0x27] @ ''>''
           | None \<Rightarrow> ''<class 'object'>''))"

text \<open>
  Truth value of a condition. pandas refuses to give a frame or a series one.
\<close>

definition truthy :: "'x heap \<Rightarrow> val \<Rightarrow> error + bool" where
  "truthy h v =
     (case v of
        VNone \<Rightarrow> Inr False
      | VBool b \<Rightarrow> Inr b
      | VInt i \<Rightarrow> Inr (i \<noteq> 0)
      | VFloat r \<Rightarrow> Inr (r \<noteq> 0)
      | VStr s \<Rightarrow> Inr (s \<noteq> [])
      | VRef _ \<Rightarrow>
          (case deref h v of
             Some (ODict d) \<Rightarrow> Inr (d \<noteq> [])
           | Some (OList xs) \<Rightarrow> Inr (xs \<noteq> [])
           | Some (OGdf _ _) \<Rightarrow> Inl (ValueError ''The truth value of a DataFrame is ambiguous.'')
           | Some (OSeries _) \<Rightarrow> Inl (ValueError ''The truth value of a Series is ambiguous.'')
           | Some (OOther _ _) \<Rightarrow> Inl (Unmodelled ''truth value of a library object'')
           | None \<Rightarrow> Inl (Unmodelled ''dangling reference'')))"

text \<open>\<^verbatim>\<open>target[k]\<close> with a string key.\<close>

definition getitem_str :: "'x library \<Rightarrow> val \<Rightarrow> string \<Rightarrow> ('x, val) prog" where
  "getitem_str lib target k w =
     (case target of
        VRef _ \<Rightarrow>
          (case deref (heap w) target of
             Some (ODict d) \<Rightarrow>
               (case map_of d k of Some v \<Rightarrow> ret v w | None \<Rightarrow> raise (KeyError (VStr k)) w)
           | Some (OList _) \<Rightarrow> raise TypeError w
           | Some (OGdf _ cols) \<Rightarrow>
               (case map_of cols k of
                  Some col \<Rightarrow> alloc (OSeries col) w
                | None \<Rightarrow> raise (KeyError (VStr k)) w)
           | Some (OSeries _) \<Rightarrow> call lib object_getitem [target, VStr k] w
           | Some (OOther _ _) \<Rightarrow> call lib object_getitem [target, VStr k] w
           | None \<Rightarrow> raise (Unmodelled ''dangling reference'') w)
      | _ \<Rightarrow> raise TypeError w)"

text \<open>\<^verbatim>\<open>target[i]\<close> with an index \<open>i \<ge> 0\<close> (the module only indexes with \<^verbatim>\<open>enumerate\<close>'s counter).\<close>

definition getitem_idx :: "'x library \<Rightarrow> val \<Rightarrow> nat \<Rightarrow> ('x, val) prog" where
  "getitem_idx lib target i w =
     (case target of
        VStr s \<Rightarrow> (if i < length s then ret (VStr [s ! i]) w else raise IndexError w)
      | VRef _ \<Rightarrow>
          (case deref (heap w) target of
             Some (ODict _) \<Rightarrow> raise (KeyError (VInt (int i))) w
           | Some (OList xs) \<Rightarrow> (if i < length xs then ret (xs ! i) w else raise IndexError w)
           | Some (OGdf _ _) \<Rightarrow> call lib object_getitem [target, VInt (int i)] w
           | Some (OSeries _) \<Rightarrow> call lib object_getitem [target, VInt (int i)] w
           | Some (OOther _ _) \<Rightarrow> call lib object_getitem [target, VInt (int i)] w
           | None \<Rightarrow> raise (Unmodelled ''dangling reference'') w)
      | _ \<Rightarrow> raise TypeError w)"

text \<open>\<^verbatim>\<open>target[k] = v\<close> with a string key.\<close>

definition setitem_str :: "val \<Rightarrow> string \<Rightarrow> val \<Rightarrow> ('x, unit) prog" where
  "setitem_str target k v w =
     (case target of
        VRef a \<Rightarrow>
          (case deref (heap w) target of
             Some (ODict d) \<Rightarrow> store a (ODict (dict_set d k v)) w
           | Some (OList _) \<Rightarrow> raise TypeError w
           | Some (OGdf _ _) \<Rightarrow> raise (Unmodelled ''item assignment on a library object'') w
           | Some (OSeries _) \<Rightarrow> raise (Unmodelled ''item assignment on a library object'') w
           | Some (OOther _ _) \<Rightarrow> raise (Unmodelled ''item assignment on a library object'') w
           | None \<Rightarrow> raise (Unmodelled ''dangling reference'') w)
      | _ \<Rightarrow> raise TypeError w)"

text \<open>\<^verbatim>\<open>len(x)\<close>\<close>

definition py_len :: "'x library \<Rightarrow> val \<Rightarrow> ('x, val) prog" where
  "py_len lib v w =
     (case v of
        VStr s \<Rightarrow> ret (VInt (int (length s))) w
      | VRef _ \<Rightarrow>
          (case deref (heap w) v of
             Some (ODict d) \<Rightarrow> ret (VInt (int (length d))) w
           | Some (OList xs) \<Rightarrow> ret (VInt (int (length xs))) w
           | Some (OGdf _ cols) \<Rightarrow> ret (VInt (int (gdf_nrows cols))) w
           | Some (OSeries xs) \<Rightarrow> ret (VInt (int (length xs))) w
           | Some (OOther _ _) \<Rightarrow> call lib builtin_len [v] w
           | None \<Rightarrow> raise (Unmodelled ''dangling reference'') w)
      | _ \<Rightarrow> raise TypeError w)"

text \<open>The elements a \<^verbatim>\<open>for\<close> loop goes through.\<close>

definition py_iter :: "val \<Rightarrow> ('x, val list) prog" where
  "py_iter v w =
     (case v of
        VStr s \<Rightarrow> ret (map (\<lambda>c. VStr [c]) s) w
      | VRef _ \<Rightarrow>
          (case deref (heap w) v of
             Some (ODict d) \<Rightarrow> ret (map (\<lambda>kv. VStr (fst kv)) d) w
           | Some (OList xs) \<Rightarrow> ret xs w
           | Some (OGdf _ cols) \<Rightarrow> ret (map (\<lambda>c. VStr (fst c)) cols) w
           | Some (OSeries xs) \<Rightarrow> ret xs w
           | Some (OOther _ _) \<Rightarrow> raise (Unmodelled ''iteration over a library object'') w
           | None \<Rightarrow> raise (Unmodelled ''dangling reference'') w)
      | _ \<Rightarrow> raise TypeError w)"

text \<open>\<^verbatim>\<open>s + x\<close> for a string \<open>s\<close>.\<close>

definition str_add :: "'x heap \<Rightarrow> string \<Rightarrow> val \<Rightarrow> error + string" where
  "str_add h s x =
     (case x of
        VStr t \<Rightarrow> Inr (s @ t)
      | VRef _ \<Rightarrow>
          (case deref h x of
             Some (ODict _) \<Rightarrow> Inl TypeError
           | Some (OList _) \<Rightarrow> Inl TypeError
           | _ \<Rightarrow> Inl (Unmodelled ''string plus a library object''))
      | _ \<Rightarrow> Inl TypeError)"

text \<open>Reading and writing the attribute \<^verbatim>\<open>crs\<close>.\<close>

definition getattr_crs :: "'x library \<Rightarrow> val \<Rightarrow> ('x, val) prog" where
  "getattr_crs lib v w =
     (case deref (heap w) v of
        Some (OGdf c _) \<Rightarrow> ret c w
      | Some (OSeries _) \<Rightarrow> call lib (Attribute ''crs'') [v] w
      | Some (OOther _ _) \<Rightarrow> call lib (Attribute ''crs'') [v] w
      | _ \<Rightarrow> raise (AttributeError ''crs'') w)"

definition setattr_crs :: "val \<Rightarrow> val \<Rightarrow> ('x, unit) prog" where
  "setattr_crs v c w =
     (case v of
        VRef a \<Rightarrow>
          (case deref (heap w) v of
             Some (OGdf _ cols) \<Rightarrow> store a (OGdf c cols) w
           | Some (OSeries _) \<Rightarrow> raise (Unmodelled ''attribute assignment on a library object'') w
           | Some (OOther _ _) \<Rightarrow> raise (Unmodelled ''attribute assignment on a library object'') w
           | _ \<Rightarrow> raise (AttributeError ''crs'') w)
      | _ \<Rightarrow> raise (AttributeError ''crs'') w)"

text \<open>
  A method call \<^verbatim>\<open>recv.name(args)\<close>: a method of a library object is a library call
  with the receiver as first argument; scalars, dicts and lists have none of the
  methods the module calls.
\<close>

definition call_method :: "'x library \<Rightarrow> string \<Rightarrow> val \<Rightarrow> val list \<Rightarrow> ('x, val) prog" where
  "call_method lib name recv args w =
     (case deref (heap w) recv of
        Some (OGdf _ _) \<Rightarrow> call lib (Method name) (recv # args) w
      | Some (OSeries _) \<Rightarrow> call lib (Method name) (recv # args) w
      | Some (OOther _ _) \<Rightarrow> call lib (Method name) (recv # args) w
      | _ \<Rightarrow> raise (AttributeError name) w)"

text \<open>\<^verbatim>\<open>Series.to_list()\<close> makes a new list of the column's values.\<close>

definition to_list :: "'x library \<Rightarrow> val \<Rightarrow> ('x, val) prog" where
  "to_list lib recv w =
     (case deref (heap w) recv of
        Some (OSeries xs) \<Rightarrow> alloc (OList xs) w
      | _ \<Rightarrow> call_method lib ''to_list'' recv [] w)"

text \<open>
  \<^verbatim>\<open>GeoDataFrame.to_file(path, driver=..., encoding=...)\<close> writes the frame. Failures
  of the file system are not modelled.
\<close>

definition to_file :: "val \<Rightarrow> string \<Rightarrow> string \<Rightarrow> string \<Rightarrow> ('x, unit) prog" where
  "to_file recv path drv enc w =
     (case deref (heap w) recv of
        Some (OGdf c cols) \<Rightarrow> (w\<lparr>files := (files w)(path \<mapsto> (drv, enc, c, cols))\<rparr>, Inr ())
      | Some (OSeries _) \<Rightarrow> raise (Unmodelled ''to_file of a library object'') w
      | Some (OOther _ _) \<Rightarrow> raise (Unmodelled ''to_file of a library object'') w
      | _ \<Rightarrow> raise (AttributeError ''to_file'') w)"

text \<open>\<^verbatim>\<open>print(s)\<close>\<close>

definition print :: "string \<Rightarrow> ('x, unit) prog" where
  "print s w = (w\<lparr>stdout := stdout w @ [s]\<rparr>, Inr ())"

text \<open>\<^verbatim>\<open>list.append\<close> on a list the module has just made.\<close>

definition list_append :: "val \<Rightarrow> val \<Rightarrow> ('x, unit) prog" where
  "list_append l v w =
     (case l of
        VRef a \<Rightarrow>
          (case deref (heap w) l of
             Some (OList xs) \<Rightarrow> store a (OList (xs @ [v])) w
           | _ \<Rightarrow> raise (AttributeError ''append'') w)
      | _ \<Rightarrow> raise (AttributeError ''append'') w)"

text \<open>\<^verbatim>\<open>os.path.join\<close> (posixpath): a part that starts with a slash starts over.\<close>

fun posix_join :: "string \<Rightarrow> string list \<Rightarrow> string" where
  "posix_join path [] = path"
| "posix_join path (b # bs) =
     posix_join
       (if b \<noteq> [] \<and> hd b = CHR ''/'' then b
        else if path = [] \<or> last path = CHR ''/'' then path @ b
        else path @ ''/'' @ b) bs"

definition os_path_join :: "val \<Rightarrow> val \<Rightarrow> string \<Rightarrow> error + string" where
  "os_path_join a b c =
     (case a of
        VStr a' \<Rightarrow> (case b of VStr b' \<Rightarrow> Inr (posix_join a' [b', c]) | _ \<Rightarrow> Inl TypeError)
      | _ \<Rightarrow> Inl TypeError)"

text \<open>\<^verbatim>\<open>copy.deepcopy(v)\<close>, started with an empty memo.\<close>

definition deepcopy :: "val \<Rightarrow> ('x, val) prog" where
  "deepcopy v w =
     (case deepcopy_vals (heap w) (heap w, []) [v] of
        ((h', m'), vs') \<Rightarrow> (w\<lparr>heap := h'\<rparr>, Inr (case vs' of v' # _ \<Rightarrow> v' | [] \<Rightarrow> v)))"

section \<open>The module \<^verbatim>\<open>extracted_shoreline.py\<close>\<close>

definition LAYER_NAME :: string where
  "LAYER_NAME = ''extracted_shoreline''"

definition FILE_NAME :: string where
  "FILE_NAME = ''extracted_shorelines.geojson''"

text \<open>
  \<^verbatim>\<open>get_reference_shoreline(shoreline_gdf, output_crs)\<close>: reproject, convert, stack,
  and add a third column of zeros. The second statement of the source formats
  \<^verbatim>\<open>reprojected_shorlines.crs\<close> for the log, which reads the attribute.
\<close>

definition get_reference_shoreline :: "'x library \<Rightarrow> val \<Rightarrow> val \<Rightarrow> ('x, val) prog" where
  "get_reference_shoreline lib shoreline_gdf output_crs =
     bind (call_method lib ''to_crs'' shoreline_gdf [output_crs]) (\<lambda>reprojected_shorlines.
     bind (getattr_crs lib reprojected_shorlines) (\<lambda>_.
     bind (call lib common_make_coastsat_compatible [reprojected_shorlines]) (\<lambda>shorelines.
     bind (call lib np_vstack [shorelines]) (\<lambda>shorelines.
     bind (py_len lib shorelines) (\<lambda>n.
     bind (call lib np_zeros [n]) (\<lambda>zeros.
     bind (call lib np_insert [shorelines, VInt 2, zeros, VInt 1]) (\<lambda>shorelines.
     ret shorelines)))))))"

text \<open>\<^verbatim>\<open>Extracted_Shoreline.create_shoreline_settings\<close>\<close>

definition create_shoreline_settings :: "val \<Rightarrow> val \<Rightarrow> val \<Rightarrow> ('x, unit) prog" where
  "create_shoreline_settings settings roi_settings reference_shoreline =
     bind (deepcopy settings) (\<lambda>shoreline_settings.
     bind (setitem_str shoreline_settings ''reference_shoreline'' reference_shoreline) (\<lambda>_.
     bind (setitem_str shoreline_settings ''adjust_detection'' (VBool False)) (\<lambda>_.
     bind (setitem_str shoreline_settings ''check_detection'' (VBool False)) (\<lambda>_.
     bind (setitem_str shoreline_settings ''inputs'' roi_settings) (\<lambda>_.
     set_shoreline_settings shoreline_settings)))))"

text \<open>\<^verbatim>\<open>Extracted_Shoreline.extract_shorelines\<close>\<close>

definition extract_shorelines :: "'x library \<Rightarrow> val \<Rightarrow> val \<Rightarrow> val \<Rightarrow> ('x, val) prog" where
  "extract_shorelines lib shoreline_gdf roi_settings settings =
     bind (getitem_str lib settings ''output_epsg'') (\<lambda>output_epsg.
     bind (get_reference_shoreline lib shoreline_gdf output_epsg) (\<lambda>reference_shoreline.
     bind (create_shoreline_settings settings roi_settings reference_shoreline) (\<lambda>_.
     bind (gets self_shoreline_settings) (\<lambda>shoreline_settings.
     bind (getitem_str lib shoreline_settings ''inputs'') (\<lambda>inputs.
     bind (call lib SDS_download_get_metadata [inputs]) (\<lambda>metadata.
     bind (gets self_shoreline_settings) (\<lambda>shoreline_settings.
     bind (call lib SDS_shoreline_extract_shorelines [metadata, shoreline_settings])
       (\<lambda>extracted_shorelines.
     bind (call lib SDS_tools_remove_duplicates [extracted_shorelines]) (\<lambda>extracted_shorelines.
     bind (call lib SDS_tools_remove_inaccurate_georef [extracted_shorelines, VInt 10])
       (\<lambda>extracted_shorelines.
     ret extracted_shorelines))))))))))"

text \<open>\<^verbatim>\<open>Extracted_Shoreline.create_geodataframe\<close>\<close>

definition create_geodataframe :: "'x library \<Rightarrow> val \<Rightarrow> val \<Rightarrow> ('x, val) prog" where
  "create_geodataframe lib input_crs output_crs =
     bind (gets self_extracted_shorelines) (\<lambda>extracted_shorelines.
     bind (call lib SDS_tools_output_to_gdf [extracted_shorelines, VStr ''lines''])
       (\<lambda>extract_shoreline_gdf.
     bind (setattr_crs extract_shoreline_gdf input_crs) (\<lambda>_.
     if output_crs \<noteq> VNone
     then call_method lib ''to_crs'' extract_shoreline_gdf [output_crs]
     else ret extract_shoreline_gdf)))"

text \<open>
  \<^verbatim>\<open>Extracted_Shoreline.__init__\<close>, in three parts: the checks of the four arguments
  (lines 42 to 60), the initial values of the attributes (lines 63 to 69), and the
  extraction (lines 71 to 83).
\<close>

definition validate :: "'x heap \<Rightarrow> val \<Rightarrow> val \<Rightarrow> val \<Rightarrow> val \<Rightarrow> error option" where
  "validate h roi_id shoreline roi_settings settings =
     (if \<not> isinstance_str roi_id
        then Some (ValueError (''ROI id must be string. not '' @ type_repr h roi_id))
      else if \<not> isinstance_GeoDataFrame h shoreline
        then Some (ValueError (''shoreline must be valid geodataframe. not ''
                                 @ type_repr h shoreline))
      else if gdf_empty h shoreline
        then Some (ValueError ''shoreline cannot be empty.'')
      else if \<not> isinstance_dict h roi_settings
        then Some (ValueError (''roi_settings must be dict. not '' @ type_repr h roi_settings))
      else if eq_empty_dict h roi_settings
        then Some (ValueError ''roi_settings cannot be empty.'')
      else if \<not> isinstance_dict h settings
        then Some (ValueError (''settings must be dict. not '' @ type_repr h settings))
      else if eq_empty_dict h settings
        then Some (ValueError ''settings cannot be empty.'')
      else None)"

definition init_attributes :: "val \<Rightarrow> ('x, unit) prog" where
  "init_attributes roi_id =
     bind (alloc (OGdf VNone [])) (\<lambda>g.
     bind (set_gdf g) (\<lambda>_.
     bind (set_roi_id roi_id) (\<lambda>_.
     bind (alloc (ODict [])) (\<lambda>d.
     bind (set_extracted_shorelines d) (\<lambda>_.
     bind (alloc (ODict [])) (\<lambda>d.
     set_shoreline_settings d))))))"

definition init_extraction :: "'x library \<Rightarrow> val \<Rightarrow> val \<Rightarrow> val \<Rightarrow> ('x, unit) prog" where
  "init_extraction lib shoreline roi_settings settings =
     bind (extract_shorelines lib shoreline roi_settings settings) (\<lambda>extracted.
     bind (set_extracted_shorelines extracted) (\<lambda>_.
     bind (gets self_extracted_shorelines) (\<lambda>extracted_shorelines.
     bind (getitem_str lib extracted_shorelines ''shorelines'') (\<lambda>shorelines.
     bind (call lib common_is_list_empty [shorelines]) (\<lambda>r.
     bind (\<lambda>w. lift (truthy (heap w) r) w) (\<lambda>empty.
     if empty then bind (gets self_roi_id) (\<lambda>rid. raise (No_Extracted_Shoreline rid))
     else
     bind (gets self_shoreline_settings) (\<lambda>shoreline_settings.
     bind (getitem_str lib shoreline_settings ''output_epsg'') (\<lambda>output_epsg.
     bind (create_geodataframe lib output_epsg (VStr ''EPSG:4326'')) (\<lambda>g.
     set_gdf g)))))))))"

definition init :: "'x library \<Rightarrow> val \<Rightarrow> val \<Rightarrow> val \<Rightarrow> val \<Rightarrow> ('x, unit) prog" where
  "init lib roi_id shoreline roi_settings settings =
     bind (gets heap) (\<lambda>h.
     case validate h roi_id shoreline roi_settings settings of
       Some e \<Rightarrow> raise e
     | None \<Rightarrow>
         bind (init_attributes roi_id) (\<lambda>_.
         init_extraction lib shoreline roi_settings settings))"

text \<open>\<^verbatim>\<open>Extracted_Shoreline.save_to_file\<close>\<close>

definition save_to_file :: "val \<Rightarrow> val \<Rightarrow> ('x, unit) prog" where
  "save_to_file sitename filepath =
     bind (lift (os_path_join filepath sitename FILE_NAME)) (\<lambda>savepath.
     bind (print (''Saving shoreline to file: '' @ savepath)) (\<lambda>_.
     bind (gets self_gdf) (\<lambda>g.
     to_file g savepath ''GeoJSON'' ''utf-8'')))"

text \<open>
  \<^verbatim>\<open>Extracted_Shoreline.style_layer\<close>. The float \<^verbatim>\<open>0.7\<close> is the double
  \<open>3152519739159347 / 2^52\<close>.
\<close>

definition style_layer :: "'x library \<Rightarrow> val \<Rightarrow> val \<Rightarrow> val \<Rightarrow> ('x, val) prog" where
  "style_layer lib geojson layer_name color =
     bind (gets heap) (\<lambda>h.
     if eq_empty_dict h geojson
       then raise (AssertionError ''ERROR.\<newline> Empty geojson cannot be drawn onto  map'')
     else
     bind (alloc (ODict [(''color'', color), (''opacity'', VInt 1), (''weight'', VInt 4)]))
       (\<lambda>style.
     bind (alloc (ODict [(''color'', VStr ''red''), (''dashArray'', VStr ''4''),
                         (''fillOpacity'', VFloat (3152519739159347 / 4503599627370496))]))
       (\<lambda>hover_style.
     call lib ipyleaflet_GeoJSON [geojson, layer_name, style, hover_style])))"

text \<open>\<^verbatim>\<open>Extracted_Shoreline.get_layer_names\<close>\<close>

definition get_layer_names :: "'x library \<Rightarrow> ('x, val) prog" where
  "get_layer_names lib =
     bind (gets self_roi_id) (\<lambda>roi_id.
     bind (gets self_gdf) (\<lambda>g.
     bind (getitem_str lib g ''date'') (\<lambda>column.
     bind (to_list lib column) (\<lambda>dates.
     bind (py_iter dates) (\<lambda>date_strs.
     bind (foreach (\<lambda>date_str w.
             lift (case str_add (heap w) ''ID'' roi_id of
                     Inl e \<Rightarrow> Inl e
                   | Inr s \<Rightarrow> (case str_add (heap w) (s @ ''_'') date_str of
                                 Inl e \<Rightarrow> Inl e
                               | Inr t \<Rightarrow> Inr (VStr t))) w) date_strs) (\<lambda>layer_names.
     alloc (OList layer_names)))))))"

text \<open>\<^verbatim>\<open>Extracted_Shoreline.get_styled_layers\<close>\<close>

definition get_styled_layers :: "'x library \<Rightarrow> ('x, val) prog" where
  "get_styled_layers lib =
     bind (gets self_gdf) (\<lambda>g.
     bind (call_method lib ''to_crs'' g [VInt 4326]) (\<lambda>g'.
     bind (call_method lib ''to_json'' g' []) (\<lambda>js.
     bind (call lib json_loads [js]) (\<lambda>features_json.
     bind (getitem_str lib features_json ''features'') (\<lambda>features.
     bind (py_len lib features) (\<lambda>n.
     bind (call lib common_get_colors [n]) (\<lambda>layer_colors.
     bind (get_layer_names lib) (\<lambda>layer_names.
     bind (alloc (OList [])) (\<lambda>layers.
     bind (getitem_str lib features_json ''features'') (\<lambda>features.
     bind (py_iter features) (\<lambda>fs.
     bind (for_enumerate (\<lambda>idx feature.
             bind (getitem_idx lib layer_names idx) (\<lambda>layer_name.
             bind (getitem_idx lib layer_colors idx) (\<lambda>layer_color.
             bind (style_layer lib feature layer_name layer_color) (\<lambda>geojson_layer.
             list_append layers geojson_layer)))) 0 fs) (\<lambda>_.
     ret layers))))))))))))"

text \<open>The methods a caller can run on a constructed instance.\<close>

datatype operation =
    Extract_shorelines val val val
  | Create_shoreline_settings val val val
  | Create_geodataframe val val
  | Save_to_file val val
  | Style_layer val val val
  | Get_layer_names
  | Get_styled_layers

fun run :: "'x library \<Rightarrow> operation \<Rightarrow> ('x, val) prog" where
  "run lib (Extract_shorelines g r s) = extract_shorelines lib g r s"
| "run lib (Create_shoreline_settings s r ref) =
     bind (create_shoreline_settings s r ref) (\<lambda>_. ret VNone)"
| "run lib (Create_geodataframe i out) = create_geodataframe lib i out"
| "run lib (Save_to_file s f) = bind (save_to_file s f) (\<lambda>_. ret VNone)"
| "run lib (Style_layer g n c) = style_layer lib g n c"
| "run lib Get_layer_names = get_layer_names lib"
| "run lib Get_styled_layers = get_styled_layers lib"

section \<open>An example world\<close>

text \<open>
  A small library and a small world, used to run the statements below on concrete
  inputs. The library answers the calls the module makes; with \<open>found = False\<close> the
  detection returns no shoreline.
\<close>

definition example_lib :: "bool \<Rightarrow> unit library" where
  "example_lib found f h args =
     (case f of
        Method name \<Rightarrow>
          (if name = ''to_crs'' then
             (case args of
                [g, c] \<Rightarrow>
                  (case deref h g of
                     Some (OGdf _ cols) \<Rightarrow> Inr ([OGdf c cols], VRef (length h))
                   | _ \<Rightarrow> Inl (LibraryError ''to_crs''))
              | _ \<Rightarrow> Inl TypeError)
           else if name = ''to_json'' then Inr ([], VStr ''{}'')
           else Inl (AttributeError name))
      | common_make_coastsat_compatible \<Rightarrow> Inr ([OOther ''numpy.ndarray'' ()], VRef (length h))
      | np_vstack \<Rightarrow> Inr ([OOther ''numpy.ndarray'' ()], VRef (length h))
      | builtin_len \<Rightarrow> Inr ([], VInt 2)
      | np_zeros \<Rightarrow> Inr ([OOther ''numpy.ndarray'' ()], VRef (length h))
      | np_insert \<Rightarrow> Inr ([OOther ''numpy.ndarray'' ()], VRef (length h))
      | SDS_download_get_metadata \<Rightarrow> Inr ([ODict []], VRef (length h))
      | SDS_shoreline_extract_shorelines \<Rightarrow>
          Inr ([OOther ''numpy.ndarray'' (),
                OList (if found then [VRef (length h)] else []),
                ODict [(''shorelines'', VRef (length h + 1))]], VRef (length h + 2))
      | SDS_tools_remove_duplicates \<Rightarrow>
          (case args of [e] \<Rightarrow> Inr ([], e) | _ \<Rightarrow> Inl TypeError)
      | SDS_tools_remove_inaccurate_georef \<Rightarrow>
          (case args of [e, t] \<Rightarrow> Inr ([], e) | _ \<Rightarrow> Inl TypeError)
      | common_is_list_empty \<Rightarrow>
          (case args of
             [l] \<Rightarrow> (case deref h l of
                       Some (OList xs) \<Rightarrow> Inr ([], VBool (xs = []))
                     | _ \<Rightarrow> Inl TypeError)
           | _ \<Rightarrow> Inl TypeError)
      | SDS_tools_output_to_gdf \<Rightarrow>
          Inr ([OGdf VNone [(''date'', [VStr ''2018-12-31 19:03:17''])]], VRef (length h))
      | json_loads \<Rightarrow>
          Inr ([ODict [(''type'', VStr ''Feature'')],
                OList [VRef (length h)],
                ODict [(''features'', VRef (length h + 1))]], VRef (length h + 2))
      | common_get_colors \<Rightarrow> Inr ([OList [VStr ''#ff0000'']], VRef (length h))
      | ipyleaflet_GeoJSON \<Rightarrow> Inr ([OOther ''ipyleaflet.leaflet.GeoJSON'' ()], VRef (length h))
      | _ \<Rightarrow> Inl (LibraryError ''not provided''))"

text \<open>
  The store holds a reference shoreline (address 0), the ROI settings (1), the settings
  (2) and the list of dates the ROI settings refer to (3).
\<close>

definition example_world :: "unit world" where
  "example_world =
     \<lparr> heap = [OGdf (VStr ''EPSG:4326'') [(''geometry'', [VNone])],
               ODict [(''sitename'', VStr ''ID21''), (''dates'', VRef 3)],
               ODict [(''output_epsg'', VInt 32610), (''adjust_detection'', VBool True),
                      (''check_detection'', VBool True), (''dates'', VRef 3)],
               OList [VStr ''2018-12-01'', VStr ''2019-03-01'']],
       calls = [],
       files = Map.empty,
       stdout = [],
       self_gdf = VNone,
       self_roi_id = VNone,
       self_extracted_shorelines = VNone,
       self_shoreline_settings = VNone \<rparr>"

section \<open>Running statements in sequence\<close>

lemma bind_ret [simp]: "bind (ret x) f = f x"
  by (rule ext) (simp add: bind_def ret_def)

lemma bind_raise [simp]: "bind (raise e) f = raise e"
  by (rule ext) (simp add: bind_def raise_def)

lemma bind_gets [simp]: "bind (gets g) f w = f (g w) w"
  by (simp add: bind_def gets_def)

lemma bind_Inr: "m w = (w1, Inr x) \<Longrightarrow> bind m f w = f x w1"
  by (simp add: bind_def)

lemma bind_Inl: "m w = (w1, Inl e) \<Longrightarrow> bind m f w = (w1, Inl e)"
  by (simp add: bind_def)

lemma bind_eq_Inr:
  "bind m f w = (w', Inr y) \<longleftrightarrow> (\<exists>w1 x. m w = (w1, Inr x) \<and> f x w1 = (w', Inr y))"
  by (auto simp: bind_def split: prod.splits sum.splits)

lemma bind_cases:
  obtains (raised) w1 e where "m w = (w1, Inl e)" "bind m f w = (w1, Inl e)"
        | (returned) w1 x where "m w = (w1, Inr x)" "bind m f w = f x w1"
  by (cases "m w" rule: prod.exhaust; cases "snd (m w)") (auto simp: bind_def)

section \<open>The constructor checks its arguments first\<close>

text \<open>
  C1. If \<^verbatim>\<open>roi_id\<close> is not a string, or \<^verbatim>\<open>shoreline\<close> is not a GeoDataFrame or is an
  empty one, or \<^verbatim>\<open>roi_settings\<close> is not a dict or is the empty dict, or \<^verbatim>\<open>settings\<close>
  is not a dict or is the empty dict, the constructor raises \<^verbatim>\<open>ValueError\<close>, and it does
  so in the world it was called in: no object has been created, no attribute set and no
  library called before the four arguments have passed.
\<close>

theorem init_validates_arguments:
  assumes "\<not> isinstance_str roi_id
         \<or> \<not> isinstance_GeoDataFrame (heap w) shoreline \<or> gdf_empty (heap w) shoreline
         \<or> \<not> isinstance_dict (heap w) roi_settings \<or> eq_empty_dict (heap w) roi_settings
         \<or> \<not> isinstance_dict (heap w) settings \<or> eq_empty_dict (heap w) settings"
  shows "\<exists>msg. init lib roi_id shoreline roi_settings settings w = (w, Inl (ValueError msg))"
proof -
  from assms have
    "\<exists>msg. validate (heap w) roi_id shoreline roi_settings settings = Some (ValueError msg)"
    unfolding validate_def by (simp split: if_split) blast
  then obtain msg where
    "validate (heap w) roi_id shoreline roi_settings settings = Some (ValueError msg)" ..
  then show ?thesis
    by (simp add: init_def raise_def)
qed

theorem init_validates_arguments_witness:
  "\<not> isinstance_dict (heap example_world) (VRef 3)
   \<and> (\<exists>msg. init (example_lib True) (VStr ''21'') (VRef 0) (VRef 1) (VRef 3) example_world
              = (example_world, Inl (ValueError msg)))"
proof -
  have h: "\<not> isinstance_dict (heap example_world) (VRef 3)"
    by (simp add: isinstance_dict_def deref_def example_world_def)
  from init_validates_arguments[of "VStr ''21''" example_world "VRef 0" "VRef 1" "VRef 3"] h
  show ?thesis by blast
qed

section \<open>What \<^verbatim>\<open>copy.deepcopy\<close> builds\<close>

text \<open>
  \<open>renamed n m v\<close> is the copy of the value \<open>v\<close> under the memo \<open>m\<close>: a scalar is its own
  copy, a reference to an object of the original store (address below \<open>n\<close>) becomes the
  reference to that object's copy.
\<close>

definition renamed :: "nat \<Rightarrow> memo \<Rightarrow> val \<Rightarrow> val" where
  "renamed n m v =
     (case v of
        VRef a \<Rightarrow> (if a < n then (case map_of m a of Some y \<Rightarrow> VRef y | None \<Rightarrow> v) else v)
      | _ \<Rightarrow> v)"

lemma deepcopy_vals_Nil [simp]: "deepcopy_vals h0 (h, m) [] = ((h, m), [])"
  by (simp add: deepcopy_vals.simps)

lemma deepcopy_vals_atom:
  "\<not> (\<exists>a. v = VRef a) \<Longrightarrow> deepcopy_vals h0 (h, m) (v # vs) =
     (case deepcopy_vals h0 (h, m) vs of (s', vs') \<Rightarrow> (s', v # vs'))"
  by (cases v) (simp_all add: deepcopy_vals.simps)

lemma deepcopy_vals_dangling:
  "\<not> a < length h0 \<Longrightarrow> deepcopy_vals h0 (h, m) (VRef a # vs) =
     (case deepcopy_vals h0 (h, m) vs of (s', vs') \<Rightarrow> (s', VRef a # vs'))"
  by (simp add: deepcopy_vals.simps)

lemma deepcopy_vals_hit:
  "a < length h0 \<Longrightarrow> map_of m a = Some y \<Longrightarrow> deepcopy_vals h0 (h, m) (VRef a # vs) =
     (case deepcopy_vals h0 (h, m) vs of (s', vs') \<Rightarrow> (s', VRef y # vs'))"
  by (simp add: deepcopy_vals.simps)

lemma deepcopy_vals_miss:
  "a < length h0 \<Longrightarrow> map_of m a = None \<Longrightarrow> deepcopy_vals h0 (h, m) (VRef a # vs) =
     (case deepcopy_vals h0 (h @ [rebuild (h0 ! a) []], (a, length h) # m) (children (h0 ! a)) of
        ((h1, m1), cs) \<Rightarrow>
          (case deepcopy_vals h0 (h1[length h := rebuild (h0 ! a) cs], m1) vs of
             (s', vs') \<Rightarrow> (s', VRef (length h) # vs')))"
  by (simp add: deepcopy_vals.simps)

lemma deepcopy_vals_cases_induct [consumes 1, case_names Nil skip hit miss]:
  assumes run: "deepcopy_vals h0 (h, m) vs = ((h', m'), vs')"
    and Nil: "\<And>h m. P h m [] h m []"
    and skip: "\<And>h m v vs h' m' vs'.
        \<not> (\<exists>a. v = VRef a \<and> a < length h0) \<Longrightarrow>
        deepcopy_vals h0 (h, m) vs = ((h', m'), vs') \<Longrightarrow> P h m vs h' m' vs' \<Longrightarrow>
        P h m (v # vs) h' m' (v # vs')"
    and hit: "\<And>h m a y vs h' m' vs'.
        a < length h0 \<Longrightarrow> map_of m a = Some y \<Longrightarrow>
        deepcopy_vals h0 (h, m) vs = ((h', m'), vs') \<Longrightarrow> P h m vs h' m' vs' \<Longrightarrow>
        P h m (VRef a # vs) h' m' (VRef y # vs')"
    and miss: "\<And>h m a vs h1 m1 cs h' m' vs'.
        a < length h0 \<Longrightarrow> map_of m a = None \<Longrightarrow>
        deepcopy_vals h0 (h @ [rebuild (h0 ! a) []], (a, length h) # m) (children (h0 ! a))
          = ((h1, m1), cs) \<Longrightarrow>
        P (h @ [rebuild (h0 ! a) []]) ((a, length h) # m) (children (h0 ! a)) h1 m1 cs \<Longrightarrow>
        deepcopy_vals h0 (h1[length h := rebuild (h0 ! a) cs], m1) vs = ((h', m'), vs') \<Longrightarrow>
        P (h1[length h := rebuild (h0 ! a) cs]) m1 vs h' m' vs' \<Longrightarrow>
        P h m (VRef a # vs) h' m' (VRef (length h) # vs')"
  shows "P h m vs h' m' vs'"
  using run Nil skip hit miss
proof (induction h0 "(h, m)" vs arbitrary: h m h' m' vs' rule: deepcopy_vals.induct)
  case (1 h0 h m)
  then show ?case by simp
next
  case (2 h0 h m v vs)
  note run = "2.prems"(1) and rules = "2.prems"(2-5)
  show ?case
  proof (cases "\<exists>a. v = VRef a \<and> a < length h0")
    case False
    then have "deepcopy_vals h0 (h, m) (v # vs) =
        (case deepcopy_vals h0 (h, m) vs of (s', vs') \<Rightarrow> (s', v # vs'))"
      by (cases v) (auto simp: deepcopy_vals_atom deepcopy_vals_dangling)
    with run obtain vs2 where r: "deepcopy_vals h0 (h, m) vs = ((h', m'), vs2)"
      and vs': "vs' = v # vs2"
      by (auto split: prod.splits)
    have "P h m vs h' m' vs2"
    proof (cases v)
      case VNone
      from "2.hyps"(1)[OF this r rules] show ?thesis .
    next
      case (VBool x)
      from "2.hyps"(2)[OF this r rules] show ?thesis .
    next
      case (VInt x)
      from "2.hyps"(3)[OF this r rules] show ?thesis .
    next
      case (VFloat x)
      from "2.hyps"(4)[OF this r rules] show ?thesis .
    next
      case (VStr x)
      from "2.hyps"(5)[OF this r rules] show ?thesis .
    next
      case (VRef x)
      with False have "\<not> x < length h0" by simp
      from "2.hyps"(9)[OF VRef this r rules] show ?thesis .
    qed
    from rules(2)[OF False r this] vs' show ?thesis by simp
  next
    case True
    then obtain a where v: "v = VRef a" and a: "a < length h0" by blast
    show ?thesis
    proof (cases "map_of m a")
      case (Some y)
      with run v a obtain vs2 where r: "deepcopy_vals h0 (h, m) vs = ((h', m'), vs2)"
        and vs': "vs' = VRef y # vs2"
        by (auto simp: deepcopy_vals_hit split: prod.splits)
      have "P h m vs h' m' vs2"
        using "2.hyps"(8)[OF v a Some r rules] .
      from rules(3)[OF a Some r this] vs' v show ?thesis by simp
    next
      case None
      obtain h1 m1 cs where c: "deepcopy_vals h0 (h @ [rebuild (h0 ! a) []], (a, length h) # m)
                          (children (h0 ! a)) = ((h1, m1), cs)"
        by (metis surj_pair)
      with run v a None obtain vs2 where
        t: "deepcopy_vals h0 (h1[length h := rebuild (h0 ! a) cs], m1) vs = ((h', m'), vs2)"
        and vs': "vs' = VRef (length h) # vs2"
        by (auto simp: deepcopy_vals_miss split: prod.splits)
      have p1: "P (h @ [rebuild (h0 ! a) []]) ((a, length h) # m) (children (h0 ! a)) h1 m1 cs"
        using "2.hyps"(6)[OF v a None c rules] .
      have p2: "P (h1[length h := rebuild (h0 ! a) cs]) m1 vs h' m' vs2"
        using "2.hyps"(7)[OF v a None c[symmetric] refl t rules] .
      from rules(4)[OF a None c p1 t p2] v vs' show ?thesis by simp
    qed
  qed
qed


definition memo_le :: "memo \<Rightarrow> memo \<Rightarrow> bool" where
  "memo_le m m' = (\<forall>a y. map_of m a = Some y \<longrightarrow> map_of m' a = Some y)"

definition refs_known :: "nat \<Rightarrow> memo \<Rightarrow> val list \<Rightarrow> bool" where
  "refs_known n m vs = (\<forall>b. VRef b \<in> set vs \<longrightarrow> b < n \<longrightarrow> map_of m b \<noteq> None)"

definition copied :: "'x heap \<Rightarrow> 'x heap \<Rightarrow> memo \<Rightarrow> addr \<Rightarrow> addr \<Rightarrow> bool" where
  "copied h0 h' m a y =
     (a < length h0 \<and> y < length h' \<and>
      h' ! y = rebuild (h0 ! a) (map (renamed (length h0) m) (children (h0 ! a))) \<and>
      refs_known (length h0) m (children (h0 ! a)))"

definition dc_inv ::
  "'x heap \<Rightarrow> 'x heap \<Rightarrow> memo \<Rightarrow> val list \<Rightarrow> 'x heap \<Rightarrow> memo \<Rightarrow> val list \<Rightarrow> bool" where
  "dc_inv h0 h m vs h' m' vs' =
     ((\<exists>ext. h' = h @ ext) \<and> memo_le m m' \<and>
      vs' = map (renamed (length h0) m') vs \<and>
      refs_known (length h0) m' vs \<and>
      (\<forall>a y. map_of m' a = Some y \<longrightarrow> map_of m a = None \<longrightarrow>
             length h \<le> y \<and> copied h0 h' m' a y))"

lemma memo_le_refl [simp]: "memo_le m m"
  by (simp add: memo_le_def)

lemma memo_le_trans: "memo_le m m1 \<Longrightarrow> memo_le m1 m' \<Longrightarrow> memo_le m m'"
  by (simp add: memo_le_def)

lemma memo_le_Cons: "map_of m a = None \<Longrightarrow> memo_le m ((a, y) # m)"
  by (auto simp: memo_le_def)

lemma renamed_stable:
  "memo_le m m' \<Longrightarrow> refs_known n m [v] \<Longrightarrow> renamed n m' v = renamed n m v"
  by (cases v) (auto simp: renamed_def memo_le_def refs_known_def split: option.splits)

lemma map_renamed_stable:
  "memo_le m m' \<Longrightarrow> refs_known n m vs \<Longrightarrow> map (renamed n m') vs = map (renamed n m) vs"
  by (rule map_cong[OF refl]) (auto intro!: renamed_stable simp: refs_known_def)

lemma refs_known_mono: "memo_le m m' \<Longrightarrow> refs_known n m vs \<Longrightarrow> refs_known n m' vs"
  by (fastforce simp: refs_known_def memo_le_def)

lemma copied_mono:
  assumes "copied h0 h1 m1 a y" "memo_le m1 m'" "y < length h'" "h' ! y = h1 ! y"
  shows "copied h0 h' m' a y"
  using assms unfolding copied_def
  by (auto simp: map_renamed_stable intro: refs_known_mono)

lemma deepcopy_vals_inv:
  assumes "deepcopy_vals h0 (h, m) vs = ((h', m'), vs')"
  shows "dc_inv h0 h m vs h' m' vs'"
  using assms
proof (induction rule: deepcopy_vals_cases_induct)
  case (Nil h m)
  show ?case by (simp add: dc_inv_def refs_known_def)
next
  case (skip h m v vs h' m' vs')
  from skip.hyps(1) have "renamed (length h0) m' v = v"
    by (cases v) (auto simp: renamed_def)
  with skip.hyps(1) skip.IH show ?case
    by (auto simp: dc_inv_def refs_known_def)
next
  case (hit h m a y vs h' m' vs')
  from hit.hyps(2) hit.IH have "map_of m' a = Some y"
    by (simp add: dc_inv_def memo_le_def)
  with hit.hyps(1) hit.IH show ?case
    by (auto simp: dc_inv_def refs_known_def renamed_def)
next
  case (miss h m a vs h1 m1 cs h' m' vs')
  let ?n = "length h0" and ?ob = "rebuild (h0 ! a) cs"
  from miss.IH(1) have ex1: "\<exists>ext. h1 = (h @ [rebuild (h0 ! a) []]) @ ext"
    and le1: "memo_le ((a, length h) # m) m1"
    and cs: "cs = map (renamed ?n m1) (children (h0 ! a))"
    and known1: "refs_known ?n m1 (children (h0 ! a))"
    and new1: "\<forall>x y. map_of m1 x = Some y \<longrightarrow> map_of ((a, length h) # m) x = None \<longrightarrow>
                 length (h @ [rebuild (h0 ! a) []]) \<le> y \<and> copied h0 h1 m1 x y"
    unfolding dc_inv_def by blast+
  from ex1 obtain e1 where e1: "h1 = h @ [rebuild (h0 ! a) []] @ e1" by auto
  from miss.IH(2) have ex2: "\<exists>ext. h' = h1[length h := ?ob] @ ext"
    and le2: "memo_le m1 m'"
    and vs': "vs' = map (renamed ?n m') vs"
    and known2: "refs_known ?n m' vs"
    and new2: "\<forall>x y. map_of m' x = Some y \<longrightarrow> map_of m1 x = None \<longrightarrow>
                 length (h1[length h := ?ob]) \<le> y \<and> copied h0 h' m' x y"
    unfolding dc_inv_def by blast+
  from ex2 obtain e2 where e2: "h' = h1[length h := ?ob] @ e2" by auto
  have h': "h' = h @ [?ob] @ e1 @ e2"
    using e1 e2 by (simp add: list_update_append)
  have a1: "map_of m1 a = Some (length h)"
    using le1 by (simp add: memo_le_def)
  then have a': "map_of m' a = Some (length h)"
    using le2 by (simp add: memo_le_def)
  have le: "memo_le m m'"
    using memo_le_trans[OF memo_le_trans[OF memo_le_Cons[OF miss.hyps(2)] le1] le2] .
  have head: "renamed ?n m' (VRef a) = VRef (length h)"
    using a' miss.hyps(1) by (simp add: renamed_def)
  have known: "refs_known ?n m' (VRef a # vs)"
    using known2 a' by (auto simp: refs_known_def)
  have new: "length h \<le> y \<and> copied h0 h' m' x y"
    if x: "map_of m' x = Some y" "map_of m x = None" for x y
  proof (cases "map_of m1 x")
    case None
    from new2 x(1) None have "length (h1[length h := ?ob]) \<le> y \<and> copied h0 h' m' x y"
      by blast
    with e1 show ?thesis by simp
  next
    case (Some y1)
    with le2 x(1) have y1: "y1 = y" by (simp add: memo_le_def)
    show ?thesis
    proof (cases "x = a")
      case True
      with a' x(1) have y: "y = length h" by simp
      have "h' ! length h = ?ob" using h' by (simp add: nth_append)
      moreover have "?ob = rebuild (h0 ! a) (map (renamed ?n m') (children (h0 ! a)))"
        unfolding cs map_renamed_stable[OF le2 known1] ..
      ultimately have "copied h0 h' m' a (length h)"
        using miss.hyps(1) h' refs_known_mono[OF le2 known1] by (simp add: copied_def)
      with True y show ?thesis by simp
    next
      case False
      with x(2) have "map_of ((a, length h) # m) x = None" by simp
      with new1 Some y1 have ge: "Suc (length h) \<le> y" and c1: "copied h0 h1 m1 x y"
        by auto
      from c1 have y1: "y < length h1" by (simp add: copied_def)
      then have "y < length h'" using e2 by simp
      moreover have "h' ! y = h1 ! y"
        using e2 y1 ge by (simp add: nth_append)
      ultimately have "copied h0 h' m' x y"
        using copied_mono[OF c1 le2] by blast
      with ge show ?thesis by simp
    qed
  qed
  show ?case
    unfolding dc_inv_def using h' le head vs' known new by auto
qed

text \<open>
  \<open>deep_copy h h1 m\<close>: the store \<open>h1\<close> is \<open>h\<close> followed by new objects, and every entry
  \<open>(a, y)\<close> of the memo names an object \<open>a\<close> of \<open>h\<close> and its copy \<open>y\<close> among the new
  objects: the same kind of object with the same keys, its members replaced by their
  copies.
\<close>

definition deep_copy :: "'x heap \<Rightarrow> 'x heap \<Rightarrow> memo \<Rightarrow> bool" where
  "deep_copy h h1 m =
     ((\<exists>ext. h1 = h @ ext) \<and>
      (\<forall>a y. map_of m a = Some y \<longrightarrow> length h \<le> y \<and> copied h h1 m a y))"

lemma deepcopy_result:
  "\<exists>h1 m. deepcopy v w = (w\<lparr>heap := h1\<rparr>, Inr (renamed (length (heap w)) m v))
          \<and> deep_copy (heap w) h1 m \<and> refs_known (length (heap w)) m [v]"
proof -
  obtain h1 m vs' where r: "deepcopy_vals (heap w) (heap w, []) [v] = ((h1, m), vs')"
    by (metis surj_pair)
  from deepcopy_vals_inv[OF r] have "dc_inv (heap w) (heap w) [] [v] h1 m vs'" .
  then have "deep_copy (heap w) h1 m" "refs_known (length (heap w)) m [v]"
    "vs' = [renamed (length (heap w)) m v]"
    by (auto simp: dc_inv_def deep_copy_def)
  with r show ?thesis
    by (auto simp: deepcopy_def)
qed

lemma map_of_dict_set: "map_of (dict_set d k v) = (map_of d)(k \<mapsto> v)"
  by (induction d) (auto simp: fun_eq_iff)

lemma deref_simps [simp]:
  "deref h VNone = None" "deref h (VBool b) = None" "deref h (VInt i) = None"
  "deref h (VFloat r) = None" "deref h (VStr s) = None"
  "deref h (VRef a) = (if a < length h then Some (h ! a) else None)"
  by (simp_all add: deref_def)

lemma setitem_str_dict:
  "deref (heap w) (VRef y) = Some (ODict d) \<Longrightarrow>
   setitem_str (VRef y) k v w = (w\<lparr>heap := (heap w)[y := ODict (dict_set d k v)]\<rparr>, Inr ())"
  by (simp add: setitem_str_def store_def)

lemma rebuild_dict_copy:
  "rebuild (ODict d) (map f (children (ODict d))) = ODict (map (\<lambda>kv. (fst kv, f (snd kv))) d)"
  by (induction d) auto

lemma map_of_renamed:
  "map_of (map (\<lambda>kv. (fst kv, f (snd kv))) d) k = map_option f (map_of d k)"
  by (induction d) auto

text \<open>The four assignments of \<^verbatim>\<open>create_shoreline_settings\<close>, on a dict at address \<open>y\<close>.\<close>
lemma patch_dict:
  assumes "deref (heap w1) (VRef y) = Some (ODict d1)"
  shows "bind (setitem_str (VRef y) ''reference_shoreline'' ref) (\<lambda>_.
     bind (setitem_str (VRef y) ''adjust_detection'' (VBool False)) (\<lambda>_.
     bind (setitem_str (VRef y) ''check_detection'' (VBool False)) (\<lambda>_.
     bind (setitem_str (VRef y) ''inputs'' roi) (\<lambda>_.
     set_shoreline_settings (VRef y))))) w1
   = (w1\<lparr>heap := (heap w1)[y := ODict (dict_set (dict_set (dict_set (dict_set d1
          ''reference_shoreline'' ref) ''adjust_detection'' (VBool False))
          ''check_detection'' (VBool False)) ''inputs'' roi)],
        self_shoreline_settings := VRef y\<rparr>, Inr ())"
proof -
  from assms have y: "y < length (heap w1)" by (simp split: if_splits)
  show ?thesis
    using assms y
    by (simp add: bind_def setitem_str_def store_def set_shoreline_settings_def)
qed


section \<open>Properties kept by every statement of a sequence\<close>

text \<open>
  \<open>preserves R m\<close>: whatever \<open>m\<close> does and however it ends, the world it leaves is
  related by \<open>R\<close> to the world it started in.
\<close>

definition preserves :: "('x world \<Rightarrow> 'x world \<Rightarrow> bool) \<Rightarrow> ('x, 'a) prog \<Rightarrow> bool" where
  "preserves R m = (\<forall>w. R w (fst (m w)))"

lemma preservesD: "preserves R m \<Longrightarrow> m w = (w', r) \<Longrightarrow> R w w'"
  by (auto simp: preserves_def dest: spec[of _ w])

lemma preserves_bind:
  assumes trans: "\<And>w1 w2 w3. R w1 w2 \<Longrightarrow> R w2 w3 \<Longrightarrow> R w1 w3"
    and m: "preserves R m" and f: "\<And>x. preserves R (f x)"
  shows "preserves R (bind m f)"
  unfolding preserves_def
proof
  fix w
  show "R w (fst (bind m f w))"
  proof (cases rule: bind_cases[of m w f])
    case (raised w1 e)
    with preservesD[OF m raised(1)] show ?thesis by simp
  next
    case (returned w1 x)
    from preservesD[OF m returned(1)] have "R w w1" .
    moreover from f have "R w1 (fst (f x w1))" by (simp add: preserves_def)
    ultimately show ?thesis using returned(2) trans by simp
  qed
qed

text \<open>The objects at the addresses below \<open>n\<close> are the same, with the same contents.\<close>

definition same_below :: "nat \<Rightarrow> 'x world \<Rightarrow> 'x world \<Rightarrow> bool" where
  "same_below n w w' = (take n (heap w') = take n (heap w))"

lemma same_below_trans: "same_below n w1 w2 \<Longrightarrow> same_below n w2 w3 \<Longrightarrow> same_below n w1 w3"
  by (simp add: same_below_def)

lemma setitem_str_same_below:
  "(\<And>a. t = VRef a \<Longrightarrow> n \<le> a) \<Longrightarrow> preserves (same_below n) (setitem_str t k v)"
  by (auto simp: preserves_def same_below_def setitem_str_def store_def raise_def
           split: val.splits option.splits obj.splits)

lemma set_shoreline_settings_same_below: "preserves (same_below n) (set_shoreline_settings t)"
  by (simp add: preserves_def same_below_def set_shoreline_settings_def)

lemma renamed_fresh:
  assumes "deep_copy h h1 m" "refs_known (length h) m [v]" "renamed (length h) m v = VRef y"
  shows "length h \<le> y"
  using assms
  by (cases v) (auto simp: renamed_def deep_copy_def refs_known_def split: if_splits option.splits)

lemma create_shoreline_settings_same_below:
  "same_below (length (heap w)) w
     (fst (create_shoreline_settings settings roi_settings reference_shoreline w))"
proof -
  let ?n = "length (heap w)"
  obtain h1 m where d: "deepcopy settings w = (w\<lparr>heap := h1\<rparr>, Inr (renamed ?n m settings))"
    and dc: "deep_copy (heap w) h1 m" and k: "refs_known ?n m [settings]"
    using deepcopy_result by blast
  let ?t = "renamed ?n m settings"
  have t: "\<And>y. ?t = VRef y \<Longrightarrow> ?n \<le> y"
    using renamed_fresh[OF dc k] by blast
  have "preserves (same_below ?n)
     (bind (setitem_str ?t ''reference_shoreline'' reference_shoreline) (\<lambda>_.
      bind (setitem_str ?t ''adjust_detection'' (VBool False)) (\<lambda>_.
      bind (setitem_str ?t ''check_detection'' (VBool False)) (\<lambda>_.
      bind (setitem_str ?t ''inputs'' roi_settings) (\<lambda>_.
      set_shoreline_settings ?t)))))"
    by (intro preserves_bind setitem_str_same_below set_shoreline_settings_same_below t)
       (auto elim: same_below_trans)
  then have "same_below ?n (w\<lparr>heap := h1\<rparr>)
     (fst (bind (setitem_str ?t ''reference_shoreline'' reference_shoreline) (\<lambda>_.
      bind (setitem_str ?t ''adjust_detection'' (VBool False)) (\<lambda>_.
      bind (setitem_str ?t ''check_detection'' (VBool False)) (\<lambda>_.
      bind (setitem_str ?t ''inputs'' roi_settings) (\<lambda>_.
      set_shoreline_settings ?t)))) (w\<lparr>heap := h1\<rparr>)))"
    unfolding preserves_def by blast
  then have "same_below ?n (w\<lparr>heap := h1\<rparr>)
     (fst (create_shoreline_settings settings roi_settings reference_shoreline w))"
    unfolding create_shoreline_settings_def
    by (simp add: bind_Inr[of "deepcopy settings", OF d])
  moreover have "same_below ?n w (w\<lparr>heap := h1\<rparr>)"
    using dc by (auto simp: same_below_def deep_copy_def)
  ultimately show ?thesis by (rule same_below_trans[rotated])
qed


section \<open>\<^verbatim>\<open>create_shoreline_settings\<close> works on a copy\<close>

text \<open>
  C4. A call to \<^verbatim>\<open>create_shoreline_settings\<close> leaves every object of the caller as it
  was, however the call ends: an object that was in the store before the call (the
  settings dict passed as argument and everything it refers to included) has the same
  contents after it, so no key of the caller's settings dict is added, removed or
  rebound.
\<close>

theorem create_shoreline_settings_leaves_settings_unchanged:
  assumes "deref (heap w) v = Some ob"
  shows "deref (heap (fst (create_shoreline_settings settings roi_settings
                             reference_shoreline w))) v = Some ob"
proof -
  let ?w' = "fst (create_shoreline_settings settings roi_settings reference_shoreline w)"
  from create_shoreline_settings_same_below[of w settings roi_settings reference_shoreline]
  have t: "take (length (heap w)) (heap ?w') = heap w"
    by (simp add: same_below_def)
  from assms obtain a where v: "v = VRef a" and a: "a < length (heap w)"
    and ob: "heap w ! a = ob"
    by (cases v) (auto split: if_splits)
  from t a have "a < length (heap ?w')"
    by (metis length_take min_less_iff_conj)
  moreover from t a have "heap ?w' ! a = heap w ! a"
    by (metis nth_take)
  ultimately show ?thesis using v ob by simp
qed

theorem create_shoreline_settings_leaves_settings_unchanged_witness:
  "deref (heap example_world) (VRef 2)
     = Some (ODict [(''output_epsg'', VInt 32610), (''adjust_detection'', VBool True),
                    (''check_detection'', VBool True), (''dates'', VRef 3)])
   \<and> deref (heap (fst (create_shoreline_settings (VRef 2) (VRef 1) (VRef 0) example_world)))
         (VRef 2)
     = Some (ODict [(''output_epsg'', VInt 32610), (''adjust_detection'', VBool True),
                    (''check_detection'', VBool True), (''dates'', VRef 3)])"
proof -
  have h: "deref (heap example_world) (VRef 2)
     = Some (ODict [(''output_epsg'', VInt 32610), (''adjust_detection'', VBool True),
                    (''check_detection'', VBool True), (''dates'', VRef 3)])"
    by (simp add: example_world_def)
  from create_shoreline_settings_leaves_settings_unchanged[OF h] h show ?thesis by blast
qed

text \<open>
  C3. For a dict \<^verbatim>\<open>settings\<close> (at address \<open>a\<close>, with items \<open>d\<close>) the call succeeds and
  sets \<^verbatim>\<open>self.shoreline_settings\<close> to a new dict (at \<open>y\<close>): the deep copy of
  \<^verbatim>\<open>settings\<close> (the store \<open>h1\<close> with the memo \<open>m\<close>, where the copy has the items of \<open>d\<close>
  with every value replaced by its copy), in which \<^verbatim>\<open>'reference_shoreline'\<close> maps to
  the reference shoreline given, \<^verbatim>\<open>'inputs'\<close> to the \<^verbatim>\<open>roi_settings\<close> given (the same
  object, not a copy), \<^verbatim>\<open>'adjust_detection'\<close> and \<^verbatim>\<open>'check_detection'\<close> to \<^verbatim>\<open>False\<close>,
  and every other key to the copy of the value it has in \<^verbatim>\<open>settings\<close>. Nothing else
  of the world changes.
\<close>

theorem create_shoreline_settings_patches_deep_copy:
  assumes "deref (heap w) (VRef a) = Some (ODict d)"
  shows "\<exists>h1 m y d'.
     deep_copy (heap w) h1 m \<and> map_of m a = Some y
     \<and> h1 ! y = ODict (map (\<lambda>kv. (fst kv, renamed (length (heap w)) m (snd kv))) d)
     \<and> create_shoreline_settings (VRef a) roi_settings reference_shoreline w
         = (w\<lparr>heap := h1[y := ODict d'], self_shoreline_settings := VRef y\<rparr>, Inr ())
     \<and> map_of d' ''reference_shoreline'' = Some reference_shoreline
     \<and> map_of d' ''inputs'' = Some roi_settings
     \<and> map_of d' ''adjust_detection'' = Some (VBool False)
     \<and> map_of d' ''check_detection'' = Some (VBool False)
     \<and> (\<forall>k. k \<notin> {''reference_shoreline'', ''inputs'', ''adjust_detection'', ''check_detection''}
            \<longrightarrow> map_of d' k = map_option (renamed (length (heap w)) m) (map_of d k))"
proof -
  let ?n = "length (heap w)"
  from assms have a: "a < ?n" and ha: "heap w ! a = ODict d"
    by (auto split: if_splits)
  obtain h1 m where dc: "deepcopy (VRef a) w = (w\<lparr>heap := h1\<rparr>, Inr (renamed ?n m (VRef a)))"
    and c: "deep_copy (heap w) h1 m" and k: "refs_known ?n m [VRef a]"
    using deepcopy_result by blast
  from k a obtain y where y: "map_of m a = Some y"
    by (auto simp: refs_known_def)
  with a have t: "renamed ?n m (VRef a) = VRef y"
    by (simp add: renamed_def)
  from c y have cp: "copied (heap w) h1 m a y"
    by (simp add: deep_copy_def)
  let ?d1 = "map (\<lambda>kv. (fst kv, renamed ?n m (snd kv))) d"
  from cp ha have y1: "y < length h1" and hy: "h1 ! y = ODict ?d1"
    using rebuild_dict_copy[of d "renamed ?n m"] by (simp_all add: copied_def)
  let ?d' = "dict_set (dict_set (dict_set (dict_set ?d1
          ''reference_shoreline'' reference_shoreline) ''adjust_detection'' (VBool False))
          ''check_detection'' (VBool False)) ''inputs'' roi_settings"
  have "deref (heap (w\<lparr>heap := h1\<rparr>)) (VRef y) = Some (ODict ?d1)"
    using y1 hy by simp
  from patch_dict[OF this, of reference_shoreline roi_settings]
  have run: "create_shoreline_settings (VRef a) roi_settings reference_shoreline w
         = (w\<lparr>heap := h1[y := ODict ?d'], self_shoreline_settings := VRef y\<rparr>, Inr ())"
    unfolding create_shoreline_settings_def
    by (simp add: bind_Inr[of "deepcopy (VRef a)", OF dc] t)
  have "map_of ?d' ''reference_shoreline'' = Some reference_shoreline"
    "map_of ?d' ''inputs'' = Some roi_settings"
    "map_of ?d' ''adjust_detection'' = Some (VBool False)"
    "map_of ?d' ''check_detection'' = Some (VBool False)"
    "\<forall>k. k \<notin> {''reference_shoreline'', ''inputs'', ''adjust_detection'', ''check_detection''}
            \<longrightarrow> map_of ?d' k = map_option (renamed ?n m) (map_of d k)"
    by (simp_all add: map_of_dict_set map_of_renamed)
  with c y hy run show ?thesis by blast
qed

theorem create_shoreline_settings_patches_deep_copy_witness:
  "deref (heap example_world) (VRef 2)
     = Some (ODict [(''output_epsg'', VInt 32610), (''adjust_detection'', VBool True),
                    (''check_detection'', VBool True), (''dates'', VRef 3)])
   \<and> (\<exists>h1 y d'.
        create_shoreline_settings (VRef 2) (VRef 1) (VRef 0) example_world
          = (example_world\<lparr>heap := h1[y := ODict d'], self_shoreline_settings := VRef y\<rparr>, Inr ())
        \<and> map_of d' ''reference_shoreline'' = Some (VRef 0)
        \<and> map_of d' ''inputs'' = Some (VRef 1)
        \<and> map_of d' ''adjust_detection'' = Some (VBool False)
        \<and> map_of d' ''check_detection'' = Some (VBool False)
        \<and> map_of d' ''output_epsg'' = Some (VInt 32610))"
proof -
  let ?d = "[(''output_epsg'', VInt 32610), (''adjust_detection'', VBool True),
             (''check_detection'', VBool True), (''dates'', VRef 3)]"
  have h: "deref (heap example_world) (VRef 2) = Some (ODict ?d)"
    by (simp add: example_world_def)
  from create_shoreline_settings_patches_deep_copy[OF h, of "VRef 1" "VRef 0"]
  obtain h1 m y d' where
    run: "create_shoreline_settings (VRef 2) (VRef 1) (VRef 0) example_world
          = (example_world\<lparr>heap := h1[y := ODict d'], self_shoreline_settings := VRef y\<rparr>, Inr ())"
    and k1: "map_of d' ''reference_shoreline'' = Some (VRef 0)"
    and k2: "map_of d' ''inputs'' = Some (VRef 1)"
    and k3: "map_of d' ''adjust_detection'' = Some (VBool False)"
    and k4: "map_of d' ''check_detection'' = Some (VBool False)"
    and rest: "\<forall>k. k \<notin> {''reference_shoreline'', ''inputs'', ''adjust_detection'',
                        ''check_detection''}
            \<longrightarrow> map_of d' k = map_option (renamed (length (heap example_world)) m) (map_of ?d k)"
    by (elim exE conjE) (rule that; assumption)
  from rest have "''output_epsg'' \<notin> {''reference_shoreline'', ''inputs'', ''adjust_detection'',
                        ''check_detection''}
            \<longrightarrow> map_of d' ''output_epsg''
                  = map_option (renamed (length (heap example_world)) m) (map_of ?d ''output_epsg'')"
    by (rule spec)
  then have k5: "map_of d' ''output_epsg'' = Some (VInt 32610)"
    by (simp add: renamed_def)
  show ?thesis
    by (rule conjI[OF h], intro exI conjI, rule run, rule k1, rule k2, rule k3, rule k4, rule k5)
qed

section \<open>The calls to the detection library\<close>

lemma call_eq_Inr:
  "call lib f args w = (w', Inr r) \<longleftrightarrow>
     (\<exists>new. lib f (heap w) args = Inr (new, r) \<and>
            w' = w\<lparr>heap := heap w @ new, calls := calls w @ [(f, args, Inr r)]\<rparr>)"
  by (auto simp: call_def split: sum.splits)

text \<open>The functions of the detection library (CoastSat) that the module calls.\<close>

definition is_detection :: "fname \<Rightarrow> bool" where
  "is_detection f =
     (f = SDS_download_get_metadata \<or> f = SDS_shoreline_extract_shorelines \<or>
      f = SDS_tools_remove_duplicates \<or> f = SDS_tools_remove_inaccurate_georef \<or>
      f = SDS_tools_output_to_gdf)"

text \<open>The calls to the detection library made between the worlds \<open>w\<close> and \<open>w'\<close>, in order.\<close>

definition detection_calls :: "'x world \<Rightarrow> 'x world \<Rightarrow> call_event list" where
  "detection_calls w w' = filter (\<lambda>c. is_detection (fst c)) (drop (length (calls w)) (calls w'))"

text \<open>Between \<open>w\<close> and \<open>w'\<close> calls were only added, none of them to the detection library.\<close>

definition no_detection :: "'x world \<Rightarrow> 'x world \<Rightarrow> bool" where
  "no_detection w w' =
     (\<exists>cs. calls w' = calls w @ cs \<and> filter (\<lambda>c. is_detection (fst c)) cs = [])"

lemma no_detection_refl [simp]: "no_detection w w"
  by (simp add: no_detection_def)

lemma no_detection_trans: "no_detection w1 w2 \<Longrightarrow> no_detection w2 w3 \<Longrightarrow> no_detection w1 w3"
  by (auto simp: no_detection_def)

lemma preserves_ret [simp]: "(\<And>w. R w w) \<Longrightarrow> preserves R (ret x)"
  by (simp add: preserves_def ret_def)

lemma preserves_raise [simp]: "(\<And>w. R w w) \<Longrightarrow> preserves R (raise e)"
  by (simp add: preserves_def raise_def)

lemma preserves_gets [simp]: "(\<And>w. R w w) \<Longrightarrow> preserves R (gets f)"
  by (simp add: preserves_def gets_def)

lemma preserves_lift [simp]: "(\<And>w. R w w) \<Longrightarrow> preserves R (lift r)"
  by (simp add: preserves_def lift_def)

lemma nd_call: "\<not> is_detection f \<Longrightarrow> preserves no_detection (call lib f args)"
  by (auto simp: preserves_def no_detection_def call_def split: sum.splits)

lemma nd_alloc: "preserves no_detection (alloc ob)"
  by (simp add: preserves_def no_detection_def alloc_def)

lemma nd_store: "preserves no_detection (store a ob)"
  by (simp add: preserves_def no_detection_def store_def)

lemma nd_getitem_str: "preserves no_detection (getitem_str lib t k)"
  using nd_call[of object_getitem lib] nd_alloc
  by (auto simp: preserves_def getitem_str_def raise_def ret_def is_detection_def
           split: val.splits option.splits obj.splits)

lemma nd_call_method: "preserves no_detection (call_method lib name recv args)"
  using nd_call[of "Method name" lib]
  by (auto simp: preserves_def call_method_def raise_def is_detection_def
           split: option.splits obj.splits)

lemma nd_getattr_crs: "preserves no_detection (getattr_crs lib v)"
  using nd_call[of "Attribute ''crs''" lib]
  by (auto simp: preserves_def getattr_crs_def raise_def ret_def is_detection_def
           split: option.splits obj.splits)

lemma nd_py_len: "preserves no_detection (py_len lib v)"
  using nd_call[of builtin_len lib]
  by (auto simp: preserves_def py_len_def raise_def ret_def is_detection_def
           split: val.splits option.splits obj.splits)

lemma nd_setitem_str: "preserves no_detection (setitem_str t k v)"
  using nd_store
  by (auto simp: preserves_def setitem_str_def raise_def
           split: val.splits option.splits obj.splits)

lemma nd_deepcopy: "preserves no_detection (deepcopy v)"
  by (auto simp: preserves_def no_detection_def deepcopy_def split: prod.splits)

lemma nd_set_shoreline_settings: "preserves no_detection (set_shoreline_settings v)"
  by (simp add: preserves_def no_detection_def set_shoreline_settings_def)

lemmas nd_bind = preserves_bind[of no_detection, OF no_detection_trans]

lemma nd_get_reference_shoreline:
  "preserves no_detection (get_reference_shoreline lib g c)"
  unfolding get_reference_shoreline_def
  by (intro nd_bind nd_call_method nd_getattr_crs nd_call nd_py_len preserves_ret)
     (simp_all add: is_detection_def)

lemma nd_create_shoreline_settings:
  "preserves no_detection (create_shoreline_settings s r ref)"
  unfolding create_shoreline_settings_def
  by (intro nd_bind nd_deepcopy nd_setitem_str nd_set_shoreline_settings)


lemma gets_eq [simp]: "gets f w = (w', r) \<longleftrightarrow> (w' = w \<and> r = Inr (f w))"
  by (auto simp: gets_def)

lemma ret_eq [simp]: "ret x w = (w', r) \<longleftrightarrow> (w' = w \<and> r = Inr x)"
  by (auto simp: ret_def)

lemma raise_eq [simp]: "raise e w = (w', r) \<longleftrightarrow> (w' = w \<and> r = Inl e)"
  by (auto simp: raise_def)

text \<open>
  What a successful run of \<^verbatim>\<open>extract_shorelines\<close> has done: after the reference shoreline
  and the settings are ready (world \<open>w5\<close>, reached without a call to the detection
  library) it made four calls to the library, each on the store the one before left.
\<close>

lemma extract_shorelines_success:
  assumes "extract_shorelines lib g r s w = (w', Inr result)"
  shows "\<exists>w5 inputs metadata n0 n1 e1 n2 e2 n3.
      no_detection w w5 \<and>
      lib SDS_download_get_metadata (heap w5) [inputs] = Inr (n0, metadata) \<and>
      lib SDS_shoreline_extract_shorelines (heap w5 @ n0)
          [metadata, self_shoreline_settings w5] = Inr (n1, e1) \<and>
      lib SDS_tools_remove_duplicates (heap w5 @ n0 @ n1) [e1] = Inr (n2, e2) \<and>
      lib SDS_tools_remove_inaccurate_georef (heap w5 @ n0 @ n1 @ n2) [e2, VInt 10]
          = Inr (n3, result) \<and>
      w' = w5\<lparr>heap := heap w5 @ n0 @ n1 @ n2 @ n3,
               calls := calls w5 @
                 [(SDS_download_get_metadata, [inputs], Inr metadata),
                  (SDS_shoreline_extract_shorelines,
                     [metadata, self_shoreline_settings w5], Inr e1),
                  (SDS_tools_remove_duplicates, [e1], Inr e2),
                  (SDS_tools_remove_inaccurate_georef, [e2, VInt 10], Inr result)]\<rparr>"
proof -
  from assms obtain w1 epsg w2 ref w3 w5 inputs where
    s1: "getitem_str lib s ''output_epsg'' w = (w1, Inr epsg)"
    and s2: "get_reference_shoreline lib g epsg w1 = (w2, Inr ref)"
    and s3: "create_shoreline_settings s r ref w2 = (w3, Inr ())"
    and s4: "getitem_str lib (self_shoreline_settings w3) ''inputs'' w3 = (w5, Inr inputs)"
    and rest: "bind (call lib SDS_download_get_metadata [inputs]) (\<lambda>metadata.
     bind (gets self_shoreline_settings) (\<lambda>shoreline_settings.
     bind (call lib SDS_shoreline_extract_shorelines [metadata, shoreline_settings])
       (\<lambda>extracted_shorelines.
     bind (call lib SDS_tools_remove_duplicates [extracted_shorelines]) (\<lambda>extracted_shorelines.
     bind (call lib SDS_tools_remove_inaccurate_georef [extracted_shorelines, VInt 10])
       (\<lambda>extracted_shorelines.
     ret extracted_shorelines))))) w5 = (w', Inr result)"
    unfolding extract_shorelines_def
    by (subst (asm) bind_eq_Inr, elim exE conjE, subst (asm) bind_eq_Inr, elim exE conjE,
        subst (asm) bind_eq_Inr, elim exE conjE, simp, subst (asm) bind_eq_Inr) blast
  have nd: "no_detection w w5"
    using preservesD[OF nd_getitem_str s1] preservesD[OF nd_get_reference_shoreline s2]
      preservesD[OF nd_create_shoreline_settings s3] preservesD[OF nd_getitem_str s4]
    by (blast intro: no_detection_trans)
  from rest obtain n0 metadata n1 e1 n2 e2 n3 where
    a: "lib SDS_download_get_metadata (heap w5) [inputs] = Inr (n0, metadata)"
    and b: "lib SDS_shoreline_extract_shorelines (heap w5 @ n0)
          [metadata, self_shoreline_settings w5] = Inr (n1, e1)"
    and c: "lib SDS_tools_remove_duplicates (heap w5 @ n0 @ n1) [e1] = Inr (n2, e2)"
    and d: "lib SDS_tools_remove_inaccurate_georef (heap w5 @ n0 @ n1 @ n2) [e2, VInt 10]
          = Inr (n3, result)"
    and w': "w' = w5\<lparr>heap := heap w5 @ n0 @ n1 @ n2 @ n3,
               calls := calls w5 @
                 [(SDS_download_get_metadata, [inputs], Inr metadata),
                  (SDS_shoreline_extract_shorelines,
                     [metadata, self_shoreline_settings w5], Inr e1),
                  (SDS_tools_remove_duplicates, [e1], Inr e2),
                  (SDS_tools_remove_inaccurate_georef, [e2, VInt 10], Inr result)]\<rparr>"
    by (auto simp: bind_eq_Inr call_eq_Inr)
  show ?thesis
    by (rule exI[of _ w5], intro exI conjI, rule nd, rule a, rule b, rule c, rule d, rule w')
qed


text \<open>
  C2. When \<^verbatim>\<open>extract_shorelines\<close> returns, the dictionary it returns is the result of
  \<^verbatim>\<open>SDS_tools.remove_inaccurate_georef\<close> with threshold 10, applied to the result of
  \<^verbatim>\<open>SDS_tools.remove_duplicates\<close>, applied to the output \<open>e1\<close> of
  \<^verbatim>\<open>SDS_shoreline.extract_shorelines\<close>; these are the last three library calls of the run,
  in this order, each made on the store the one before left.
\<close>

theorem extract_shorelines_applies_postfilters_in_order:
  assumes "extract_shorelines lib shoreline_gdf roi_settings settings w = (w', Inr result)"
  shows "\<exists>h metadata ss n1 e1 n2 e2 n3 pre.
      lib SDS_shoreline_extract_shorelines h [metadata, ss] = Inr (n1, e1)
    \<and> lib SDS_tools_remove_duplicates (h @ n1) [e1] = Inr (n2, e2)
    \<and> lib SDS_tools_remove_inaccurate_georef (h @ n1 @ n2) [e2, VInt 10] = Inr (n3, result)
    \<and> heap w' = h @ n1 @ n2 @ n3
    \<and> calls w' = pre @ [(SDS_shoreline_extract_shorelines, [metadata, ss], Inr e1),
                         (SDS_tools_remove_duplicates, [e1], Inr e2),
                         (SDS_tools_remove_inaccurate_georef, [e2, VInt 10], Inr result)]"
proof -
  from extract_shorelines_success[OF assms]
  obtain w5 inputs metadata n0 n1 e1 n2 e2 n3 where
    b: "lib SDS_shoreline_extract_shorelines (heap w5 @ n0)
          [metadata, self_shoreline_settings w5] = Inr (n1, e1)"
    and c: "lib SDS_tools_remove_duplicates (heap w5 @ n0 @ n1) [e1] = Inr (n2, e2)"
    and d: "lib SDS_tools_remove_inaccurate_georef (heap w5 @ n0 @ n1 @ n2) [e2, VInt 10]
          = Inr (n3, result)"
    and w': "w' = w5\<lparr>heap := heap w5 @ n0 @ n1 @ n2 @ n3,
               calls := calls w5 @
                 [(SDS_download_get_metadata, [inputs], Inr metadata),
                  (SDS_shoreline_extract_shorelines,
                     [metadata, self_shoreline_settings w5], Inr e1),
                  (SDS_tools_remove_duplicates, [e1], Inr e2),
                  (SDS_tools_remove_inaccurate_georef, [e2, VInt 10], Inr result)]\<rparr>"
    by (elim exE conjE) (rule that; assumption)
  let ?h = "heap w5 @ n0"
  have "lib SDS_tools_remove_duplicates (?h @ n1) [e1] = Inr (n2, e2)"
    "lib SDS_tools_remove_inaccurate_georef (?h @ n1 @ n2) [e2, VInt 10] = Inr (n3, result)"
    "heap w' = ?h @ n1 @ n2 @ n3"
    "calls w' = (calls w5 @ [(SDS_download_get_metadata, [inputs], Inr metadata)]) @
                  [(SDS_shoreline_extract_shorelines,
                     [metadata, self_shoreline_settings w5], Inr e1),
                  (SDS_tools_remove_duplicates, [e1], Inr e2),
                  (SDS_tools_remove_inaccurate_georef, [e2, VInt 10], Inr result)]"
    using c d w' by simp_all
  with b show ?thesis by blast
qed

lemma example_extraction:
  "extract_shorelines (example_lib True) (VRef 0) (VRef 1) (VRef 2) example_world
     = (fst (extract_shorelines (example_lib True) (VRef 0) (VRef 1) (VRef 2) example_world),
        Inr (VRef 14))"
proof -
  have "snd (extract_shorelines (example_lib True) (VRef 0) (VRef 1) (VRef 2) example_world)
          = Inr (VRef 14)"
    by code_simp
  then show ?thesis
    by (metis prod.collapse)
qed

theorem extract_shorelines_applies_postfilters_in_order_witness:
  "extract_shorelines (example_lib True) (VRef 0) (VRef 1) (VRef 2) example_world
     = (fst (extract_shorelines (example_lib True) (VRef 0) (VRef 1) (VRef 2) example_world),
        Inr (VRef 14))
   \<and> (\<exists>h metadata ss n1 e1 n2 e2 n3.
      example_lib True SDS_shoreline_extract_shorelines h [metadata, ss] = Inr (n1, e1)
    \<and> example_lib True SDS_tools_remove_duplicates (h @ n1) [e1] = Inr (n2, e2)
    \<and> example_lib True SDS_tools_remove_inaccurate_georef (h @ n1 @ n2) [e2, VInt 10]
        = Inr (n3, VRef 14))"
proof -
  from extract_shorelines_applies_postfilters_in_order[OF example_extraction]
  have "\<exists>h metadata ss n1 e1 n2 e2 n3.
      example_lib True SDS_shoreline_extract_shorelines h [metadata, ss] = Inr (n1, e1)
    \<and> example_lib True SDS_tools_remove_duplicates (h @ n1) [e1] = Inr (n2, e2)
    \<and> example_lib True SDS_tools_remove_inaccurate_georef (h @ n1 @ n2) [e2, VInt 10]
        = Inr (n3, VRef 14)"
    by (elim exE conjE) (intro exI conjI; assumption)
  with example_extraction show ?thesis by (rule conjI)
qed

text \<open>
  C6, as stated, fails: a successful extraction makes four calls to the detection
  library, not three.
\<close>

theorem extract_shorelines_three_calls_counterexample:
  "snd (extract_shorelines (example_lib True) (VRef 0) (VRef 1) (VRef 2) example_world)
     = Inr (VRef 14)
   \<and> map fst (detection_calls example_world
        (fst (extract_shorelines (example_lib True) (VRef 0) (VRef 1) (VRef 2) example_world)))
     = [SDS_download_get_metadata, SDS_shoreline_extract_shorelines,
        SDS_tools_remove_duplicates, SDS_tools_remove_inaccurate_georef]
   \<and> length (detection_calls example_world
        (fst (extract_shorelines (example_lib True) (VRef 0) (VRef 1) (VRef 2) example_world)))
     \<noteq> 3"
  by code_simp

text \<open>
  C6, amended. A successful run of \<^verbatim>\<open>extract_shorelines\<close> makes exactly four calls to
  the detection library: \<^verbatim>\<open>SDS_download.get_metadata\<close>,
  \<^verbatim>\<open>SDS_shoreline.extract_shorelines\<close>, \<^verbatim>\<open>SDS_tools.remove_duplicates\<close> and
  \<^verbatim>\<open>SDS_tools.remove_inaccurate_georef\<close>, in this order. Each call after the first takes
  the result of the call before it as its first argument, and \<^verbatim>\<open>extract_shorelines\<close>
  returns the result of the last.
\<close>

theorem extract_shorelines_chains_four_detection_calls:
  assumes "extract_shorelines lib shoreline_gdf roi_settings settings w = (w', Inr result)"
  shows "\<exists>inputs metadata ss e1 e2.
      detection_calls w w' =
        [(SDS_download_get_metadata, [inputs], Inr metadata),
         (SDS_shoreline_extract_shorelines, [metadata, ss], Inr e1),
         (SDS_tools_remove_duplicates, [e1], Inr e2),
         (SDS_tools_remove_inaccurate_georef, [e2, VInt 10], Inr result)]"
proof -
  from extract_shorelines_success[OF assms]
  obtain w5 inputs metadata n0 n1 e1 n2 e2 n3 where
    nd: "no_detection w w5"
    and w': "w' = w5\<lparr>heap := heap w5 @ n0 @ n1 @ n2 @ n3,
               calls := calls w5 @
                 [(SDS_download_get_metadata, [inputs], Inr metadata),
                  (SDS_shoreline_extract_shorelines,
                     [metadata, self_shoreline_settings w5], Inr e1),
                  (SDS_tools_remove_duplicates, [e1], Inr e2),
                  (SDS_tools_remove_inaccurate_georef, [e2, VInt 10], Inr result)]\<rparr>"
    by (elim exE conjE) (rule that; assumption)
  from nd obtain cs where cs: "calls w5 = calls w @ cs"
    and f: "filter (\<lambda>c. is_detection (fst c)) cs = []"
    by (auto simp: no_detection_def)
  have "detection_calls w w' =
        [(SDS_download_get_metadata, [inputs], Inr metadata),
         (SDS_shoreline_extract_shorelines, [metadata, self_shoreline_settings w5], Inr e1),
         (SDS_tools_remove_duplicates, [e1], Inr e2),
         (SDS_tools_remove_inaccurate_georef, [e2, VInt 10], Inr result)]"
    unfolding detection_calls_def w' using cs f by (simp add: is_detection_def)
  then show ?thesis by blast
qed

theorem extract_shorelines_chains_four_detection_calls_witness:
  "extract_shorelines (example_lib True) (VRef 0) (VRef 1) (VRef 2) example_world
     = (fst (extract_shorelines (example_lib True) (VRef 0) (VRef 1) (VRef 2) example_world),
        Inr (VRef 14))
   \<and> (\<exists>inputs metadata ss e1 e2.
      detection_calls example_world
        (fst (extract_shorelines (example_lib True) (VRef 0) (VRef 1) (VRef 2) example_world)) =
        [(SDS_download_get_metadata, [inputs], Inr metadata),
         (SDS_shoreline_extract_shorelines, [metadata, ss], Inr e1),
         (SDS_tools_remove_duplicates, [e1], Inr e2),
         (SDS_tools_remove_inaccurate_georef, [e2, VInt 10], Inr (VRef 14))])"
  using extract_shorelines_chains_four_detection_calls[OF example_extraction] example_extraction
  by (rule conjI[rotated])

section \<open>What the statements leave alone\<close>

text \<open>
  \<open>undisturbed w w'\<close>: between the two worlds the attributes \<^verbatim>\<open>self.roi_id\<close> and
  \<^verbatim>\<open>self.shoreline_settings\<close> were not assigned, and every dict of the store kept its
  items.
\<close>

definition undisturbed :: "'x world \<Rightarrow> 'x world \<Rightarrow> bool" where
  "undisturbed w w' =
     (self_roi_id w' = self_roi_id w \<and>
      self_shoreline_settings w' = self_shoreline_settings w \<and>
      (\<forall>a d. deref (heap w) (VRef a) = Some (ODict d) \<longrightarrow>
             deref (heap w') (VRef a) = Some (ODict d)))"

lemma undisturbed_refl [simp]: "undisturbed w w"
  by (simp add: undisturbed_def)

lemma undisturbed_trans: "undisturbed w1 w2 \<Longrightarrow> undisturbed w2 w3 \<Longrightarrow> undisturbed w1 w3"
  unfolding undisturbed_def by (intro conjI allI impI) (simp, simp, blast)

lemmas undisturbed_bind = preserves_bind[of undisturbed, OF undisturbed_trans]

lemma preserves_weaken:
  "preserves R m \<Longrightarrow> (\<And>w w'. R w w' \<Longrightarrow> R' w w') \<Longrightarrow> preserves R' m"
  by (simp add: preserves_def)

lemma preserves_if:
  "preserves R m \<Longrightarrow> preserves R m' \<Longrightarrow> preserves R (if b then m else m')"
  by simp

lemma fst_ret [simp]: "fst (ret x w) = w"
  by (simp add: ret_def)

lemma fst_raise [simp]: "fst (raise e w) = w"
  by (simp add: raise_def)

lemma st_alloc: "preserves undisturbed (alloc ob)"
  by (auto simp: preserves_def undisturbed_def alloc_def nth_append split: if_splits)

lemma st_call: "preserves undisturbed (call lib f args)"
  by (auto simp: preserves_def undisturbed_def call_def nth_append split: sum.splits if_splits)

lemma st_getitem_str: "preserves undisturbed (getitem_str lib t k)"
  using st_call[of lib object_getitem] st_alloc
  by (auto simp: preserves_def getitem_str_def split: val.splits option.splits obj.splits)

lemma st_getitem_idx: "preserves undisturbed (getitem_idx lib t i)"
  using st_call[of lib object_getitem]
  by (auto simp: preserves_def getitem_idx_def split: val.splits option.splits obj.splits)

lemma st_py_len: "preserves undisturbed (py_len lib v)"
  using st_call[of lib builtin_len]
  by (auto simp: preserves_def py_len_def split: val.splits option.splits obj.splits)

lemma st_py_iter: "preserves undisturbed (py_iter v)"
  by (auto simp: preserves_def py_iter_def split: val.splits option.splits obj.splits)

lemma st_getattr_crs: "preserves undisturbed (getattr_crs lib v)"
  using st_call[of lib "Attribute ''crs''"]
  by (auto simp: preserves_def getattr_crs_def split: option.splits obj.splits)

lemma st_call_method: "preserves undisturbed (call_method lib name recv args)"
  using st_call[of lib "Method name"]
  by (auto simp: preserves_def call_method_def split: option.splits obj.splits)

lemma st_to_list: "preserves undisturbed (to_list lib recv)"
  using st_call_method[of lib "''to_list''" recv "[]"] st_alloc
  by (auto simp: preserves_def to_list_def split: option.splits obj.splits)

lemma st_setattr_crs: "preserves undisturbed (setattr_crs v c)"
  by (auto simp: preserves_def undisturbed_def setattr_crs_def store_def nth_list_update
           split: val.splits option.splits obj.splits if_splits)

lemma st_list_append: "preserves undisturbed (list_append l v)"
  by (auto simp: preserves_def undisturbed_def list_append_def store_def nth_list_update
           split: val.splits option.splits obj.splits if_splits)

lemma st_to_file: "preserves undisturbed (to_file recv path drv enc)"
  by (auto simp: preserves_def undisturbed_def to_file_def split: option.splits obj.splits)

lemma st_print: "preserves undisturbed (print s)"
  by (simp add: preserves_def undisturbed_def print_def)

lemma st_set_gdf: "preserves undisturbed (set_gdf v)"
  by (simp add: preserves_def undisturbed_def set_gdf_def)

lemma st_set_extracted_shorelines: "preserves undisturbed (set_extracted_shorelines v)"
  by (simp add: preserves_def undisturbed_def set_extracted_shorelines_def)

lemma st_deepcopy: "preserves undisturbed (deepcopy v)"
proof -
  have "undisturbed w (fst (deepcopy v w))" for w :: "'a world"
  proof -
    obtain h1 m where "deepcopy v w = (w\<lparr>heap := h1\<rparr>, Inr (renamed (length (heap w)) m v))"
      and "deep_copy (heap w) h1 m"
      using deepcopy_result by blast
    then show ?thesis
      by (auto simp: undisturbed_def deep_copy_def nth_append split: if_splits)
  qed
  then show ?thesis by (simp add: preserves_def)
qed

lemma st_foreach: "(\<And>x. preserves undisturbed (f x)) \<Longrightarrow> preserves undisturbed (foreach f xs)"
  by (induction xs) (auto intro!: undisturbed_bind)

lemma st_for_enumerate:
  "(\<And>i x. preserves undisturbed (body i x)) \<Longrightarrow> preserves undisturbed (for_enumerate body i xs)"
  by (induction xs arbitrary: i) (auto intro!: undisturbed_bind)

lemma st_get_reference_shoreline: "preserves undisturbed (get_reference_shoreline lib g c)"
  unfolding get_reference_shoreline_def
  by (intro undisturbed_bind st_call_method st_getattr_crs st_call st_py_len preserves_ret) simp_all

lemma st_create_geodataframe: "preserves undisturbed (create_geodataframe lib i out)"
  unfolding create_geodataframe_def
  by (intro undisturbed_bind preserves_gets st_call st_setattr_crs preserves_if st_call_method
        preserves_ret) simp_all

lemma st_save_to_file: "preserves undisturbed (save_to_file s f)"
  unfolding save_to_file_def
  by (intro undisturbed_bind preserves_gets preserves_lift st_print st_to_file) simp_all

lemma st_style_layer: "preserves undisturbed (style_layer lib g n c)"
  unfolding style_layer_def
  by (intro undisturbed_bind preserves_gets preserves_if preserves_raise st_alloc st_call) simp_all

lemma st_get_layer_names: "preserves undisturbed (get_layer_names lib)"
  unfolding get_layer_names_def
  by (intro undisturbed_bind preserves_gets st_getitem_str st_to_list st_py_iter st_foreach st_alloc)
     (simp_all add: preserves_def lift_def)

lemma st_get_styled_layers: "preserves undisturbed (get_styled_layers lib)"
  unfolding get_styled_layers_def
  by (intro undisturbed_bind preserves_gets st_call_method st_call st_getitem_str st_py_len
        st_get_layer_names st_alloc st_py_iter st_for_enumerate st_getitem_idx st_style_layer
        st_list_append preserves_ret) simp_all


section \<open>Manual detection stays switched off\<close>

text \<open>
  \<open>detection_disabled w\<close>: \<^verbatim>\<open>self.shoreline_settings\<close> is a dict in which
  \<^verbatim>\<open>'adjust_detection'\<close> and \<^verbatim>\<open>'check_detection'\<close> are both \<^verbatim>\<open>False\<close>.
\<close>

definition detection_disabled :: "'x world \<Rightarrow> bool" where
  "detection_disabled w =
     (case deref (heap w) (self_shoreline_settings w) of
        Some (ODict d) \<Rightarrow>
          map_of d ''adjust_detection'' = Some (VBool False) \<and>
          map_of d ''check_detection'' = Some (VBool False)
      | _ \<Rightarrow> False)"

text \<open>\<open>keeps P\<close>: if \<open>P\<close> held before, it holds after. \<open>establishes P m\<close>: \<open>P\<close> holds whenever \<open>m\<close> returns.\<close>

definition keeps :: "('x world \<Rightarrow> bool) \<Rightarrow> 'x world \<Rightarrow> 'x world \<Rightarrow> bool" where
  "keeps P w w' = (P w \<longrightarrow> P w')"

definition establishes :: "('x world \<Rightarrow> bool) \<Rightarrow> ('x, 'a) prog \<Rightarrow> bool" where
  "establishes P m = (\<forall>w w' x. m w = (w', Inr x) \<longrightarrow> P w')"

lemma keeps_refl [simp]: "keeps P w w"
  by (simp add: keeps_def)

lemma keeps_trans: "keeps P w1 w2 \<Longrightarrow> keeps P w2 w3 \<Longrightarrow> keeps P w1 w3"
  by (simp add: keeps_def)

lemmas keeps_bind = preserves_bind[of "keeps P" for P, OF keeps_trans]

lemma establishes_bind_first:
  assumes "establishes P m" and "\<And>x. preserves (keeps P) (f x)"
  shows "establishes P (bind m f)"
  unfolding establishes_def
proof (intro allI impI)
  fix w w' y
  assume "bind m f w = (w', Inr y)"
  then obtain w1 x where m: "m w = (w1, Inr x)" and f: "f x w1 = (w', Inr y)"
    by (auto simp: bind_eq_Inr)
  from assms(1) m have "P w1" unfolding establishes_def by blast
  with preservesD[OF assms(2) f] show "P w'" by (simp add: keeps_def)
qed

lemma establishes_bind_rest:
  assumes "\<And>x. establishes P (f x)"
  shows "establishes P (bind m f)"
  using assms unfolding establishes_def by (auto simp: bind_eq_Inr)

lemma undisturbed_keeps_disabled:
  assumes "undisturbed w w'"
  shows "keeps detection_disabled w w'"
  unfolding keeps_def
proof
  assume "detection_disabled w"
  then obtain d where d: "deref (heap w) (self_shoreline_settings w) = Some (ODict d)"
    and flags: "map_of d ''adjust_detection'' = Some (VBool False)"
      "map_of d ''check_detection'' = Some (VBool False)"
    by (auto simp: detection_disabled_def split: option.splits obj.splits)
  from d obtain a where a: "self_shoreline_settings w = VRef a"
    by (cases "self_shoreline_settings w") auto
  from assms d a have "deref (heap w') (VRef a) = Some (ODict d)"
    and "self_shoreline_settings w' = VRef a"
    unfolding undisturbed_def by metis+
  with flags show "detection_disabled w'"
    by (simp add: detection_disabled_def)
qed

lemma kd: "preserves undisturbed m \<Longrightarrow> preserves (keeps detection_disabled) m"
  by (erule preserves_weaken) (rule undisturbed_keeps_disabled)

lemma setitem_str_fails:
  "\<forall>d. deref (heap w) t \<noteq> Some (ODict d) \<Longrightarrow> \<exists>e. setitem_str t k v w = (w, Inl e)"
  by (auto simp: setitem_str_def raise_def split: val.splits option.splits obj.splits)

lemma create_shoreline_settings_outcome:
  "(\<exists>h1 y d'. create_shoreline_settings s r ref w
        = (w\<lparr>heap := h1[y := ODict d'], self_shoreline_settings := VRef y\<rparr>, Inr ())
      \<and> y < length h1
      \<and> map_of d' ''adjust_detection'' = Some (VBool False)
      \<and> map_of d' ''check_detection'' = Some (VBool False))
   \<or> (\<exists>ext e. create_shoreline_settings s r ref w = (w\<lparr>heap := heap w @ ext\<rparr>, Inl e))"
proof -
  let ?n = "length (heap w)"
  obtain h1 m where dc: "deepcopy s w = (w\<lparr>heap := h1\<rparr>, Inr (renamed ?n m s))"
    and c: "deep_copy (heap w) h1 m"
    using deepcopy_result by blast
  let ?t = "renamed ?n m s" and ?w1 = "w\<lparr>heap := h1\<rparr>"
  from c obtain ext where ext: "h1 = heap w @ ext" by (auto simp: deep_copy_def)
  show ?thesis
  proof (cases "\<exists>d1. deref (heap ?w1) ?t = Some (ODict d1)")
    case True
    then obtain d1 where d1: "deref (heap ?w1) ?t = Some (ODict d1)" ..
    then obtain y where t: "?t = VRef y" and y: "y < length h1"
      by (cases ?t) (auto split: if_splits)
    let ?d' = "dict_set (dict_set (dict_set (dict_set d1
          ''reference_shoreline'' ref) ''adjust_detection'' (VBool False))
          ''check_detection'' (VBool False)) ''inputs'' r"
    from patch_dict[OF d1[unfolded t], of ref r]
    have "create_shoreline_settings s r ref w
        = (w\<lparr>heap := h1[y := ODict ?d'], self_shoreline_settings := VRef y\<rparr>, Inr ())"
      unfolding create_shoreline_settings_def
      by (simp add: bind_Inr[of "deepcopy s", OF dc] t)
    moreover have "map_of ?d' ''adjust_detection'' = Some (VBool False)"
      "map_of ?d' ''check_detection'' = Some (VBool False)"
      by (simp_all add: map_of_dict_set)
    ultimately show ?thesis using y by blast
  next
    case False
    then obtain e where
      "setitem_str ?t ''reference_shoreline'' ref ?w1 = (?w1, Inl e)"
      using setitem_str_fails[of ?w1 ?t] by blast
    then have "create_shoreline_settings s r ref w = (?w1, Inl e)"
      unfolding create_shoreline_settings_def
      by (simp add: bind_Inr[of "deepcopy s", OF dc] bind_Inl)
    with ext show ?thesis by blast
  qed
qed

lemma create_shoreline_settings_establishes:
  "establishes detection_disabled (create_shoreline_settings s r ref)"
  unfolding establishes_def
proof (intro allI impI)
  fix w w' :: "'a world" and x
  assume "create_shoreline_settings s r ref w = (w', Inr x)"
  with create_shoreline_settings_outcome[of s r ref w]
  show "detection_disabled w'"
    by (auto simp: detection_disabled_def)
qed

lemma undisturbed_extend: "undisturbed w (w\<lparr>heap := heap w @ ext\<rparr>)"
  by (auto simp: undisturbed_def nth_append split: if_splits)

lemma create_shoreline_settings_keeps:
  "preserves (keeps detection_disabled) (create_shoreline_settings s r ref)"
  unfolding preserves_def
proof
  fix w :: "'a world"
  from create_shoreline_settings_outcome[of s r ref w]
  show "keeps detection_disabled w (fst (create_shoreline_settings s r ref w))"
  proof (elim disjE exE conjE)
    fix h1 y d'
    assume "create_shoreline_settings s r ref w
        = (w\<lparr>heap := h1[y := ODict d'], self_shoreline_settings := VRef y\<rparr>, Inr ())"
      "y < length h1" "map_of d' ''adjust_detection'' = Some (VBool False)"
      "map_of d' ''check_detection'' = Some (VBool False)"
    then show ?thesis
      by (simp add: keeps_def detection_disabled_def)
  next
    fix ext e
    assume "create_shoreline_settings s r ref w = (w\<lparr>heap := heap w @ ext\<rparr>, Inl e)"
    then show ?thesis
      using undisturbed_keeps_disabled[OF undisturbed_extend[of w ext]] by simp
  qed
qed

lemma extract_shorelines_keeps:
  "preserves (keeps detection_disabled) (extract_shorelines lib g r s)"
  unfolding extract_shorelines_def
  by (intro keeps_bind create_shoreline_settings_keeps kd st_getitem_str
        st_get_reference_shoreline st_call preserves_gets preserves_ret) simp_all

lemma extract_shorelines_establishes:
  "establishes detection_disabled (extract_shorelines lib g r s)"
  unfolding extract_shorelines_def
  by (intro establishes_bind_rest establishes_bind_first[OF create_shoreline_settings_establishes]
        keeps_bind kd st_getitem_str st_call preserves_gets preserves_ret) simp_all

lemma init_extraction_establishes:
  "establishes detection_disabled (init_extraction lib g r s)"
  unfolding init_extraction_def
  by (intro establishes_bind_first[OF extract_shorelines_establishes]
        keeps_bind kd st_set_extracted_shorelines st_getitem_str st_call preserves_gets
        preserves_if preserves_raise st_create_geodataframe st_set_gdf)
     (simp_all add: preserves_def lift_def)

lemma init_establishes:
  "establishes detection_disabled (init lib roi_id g r s)"
  unfolding init_def establishes_def
  using init_extraction_establishes[of lib g r s]
  by (auto simp: bind_eq_Inr establishes_def split: option.splits)

lemma create_shoreline_settings_run_keeps:
  "preserves (keeps detection_disabled)
     (bind (create_shoreline_settings s r ref) (\<lambda>_. ret VNone))"
  by (intro keeps_bind create_shoreline_settings_keeps preserves_ret) simp_all

lemma save_to_file_run_keeps:
  "preserves (keeps detection_disabled) (bind (save_to_file s f) (\<lambda>_. ret VNone))"
  by (intro keeps_bind kd[OF st_save_to_file] preserves_ret) simp_all

lemma run_keeps: "preserves (keeps detection_disabled) (run lib op)"
proof (cases op)
  case (Extract_shorelines g r s)
  then show ?thesis by (simp add: extract_shorelines_keeps)
next
  case (Create_shoreline_settings s r ref)
  then show ?thesis
    by (simp add: create_shoreline_settings_run_keeps)
next
  case (Create_geodataframe i out)
  then show ?thesis by (simp add: kd st_create_geodataframe)
next
  case (Save_to_file s f)
  then show ?thesis
    by (simp add: save_to_file_run_keeps)
next
  case (Style_layer g n c)
  then show ?thesis by (simp add: kd st_style_layer)
next
  case Get_layer_names
  then show ?thesis by (simp add: kd st_get_layer_names)
next
  case Get_styled_layers
  then show ?thesis by (simp add: kd st_get_styled_layers)
qed

text \<open>
  C8. When the constructor returns, \<^verbatim>\<open>self.shoreline_settings['adjust_detection']\<close> and
  \<^verbatim>\<open>self.shoreline_settings['check_detection']\<close> are \<^verbatim>\<open>False\<close>, whatever the settings
  passed in held for these keys; and every method of the class, run with any arguments
  in a world where this holds, leaves a world where it holds, however the method ends.
  Runs in which the model stops with \<open>Unmodelled\<close> (an assignment into an object of a
  class the model does not know) are left out.
\<close>

theorem detection_stays_disabled:
  "(init lib roi_id shoreline roi_settings settings start = (w, Inr ()) \<longrightarrow> detection_disabled w)
   \<and> (detection_disabled w \<and> (\<forall>e. snd (run lib op w) \<noteq> Inl (Unmodelled e))
        \<longrightarrow> detection_disabled (fst (run lib op w)))"
  using init_establishes[of lib roi_id shoreline roi_settings settings] run_keeps[of lib op]
  by (simp add: establishes_def preserves_def keeps_def)


text \<open>The instance the constructor builds in the example world.\<close>

definition example_instance :: "unit world" where
  "example_instance =
     fst (init (example_lib True) (VStr ''21'') (VRef 0) (VRef 1) (VRef 2) example_world)"

lemma example_init:
  "init (example_lib True) (VStr ''21'') (VRef 0) (VRef 1) (VRef 2) example_world
     = (example_instance, Inr ())"
proof -
  have "snd (init (example_lib True) (VStr ''21'') (VRef 0) (VRef 1) (VRef 2) example_world)
          = Inr ()"
    by code_simp
  then show ?thesis
    unfolding example_instance_def by (metis prod.collapse)
qed


lemma example_layer_names:
  "snd (run (example_lib True) Get_layer_names example_instance) = Inr (VRef 22)"
  by code_simp

theorem detection_stays_disabled_witness:
  "init (example_lib True) (VStr ''21'') (VRef 0) (VRef 1) (VRef 2) example_world
     = (example_instance, Inr ())
   \<and> detection_disabled example_instance
   \<and> (\<forall>e. snd (run (example_lib True) Get_layer_names example_instance) \<noteq> Inl (Unmodelled e))
   \<and> detection_disabled (fst (run (example_lib True) Get_layer_names example_instance))"
proof -
  note inst = detection_stays_disabled[where lib = "example_lib True" and roi_id = "VStr ''21''"
      and shoreline = "VRef 0" and roi_settings = "VRef 1" and settings = "VRef 2"
      and start = example_world and w = example_instance and op = Get_layer_names]
  have a: "detection_disabled example_instance"
    using inst example_init by blast
  have b: "\<forall>e. snd (run (example_lib True) Get_layer_names example_instance) \<noteq> Inl (Unmodelled e)"
    by (simp only: example_layer_names, simp)
  have c: "detection_disabled (fst (run (example_lib True) Get_layer_names example_instance))"
    using inst a b by blast
  from example_init a b c show ?thesis by blast
qed

section \<open>The attribute \<^verbatim>\<open>self.roi_id\<close> and the helper's answer\<close>

text \<open>\<^verbatim>\<open>self.roi_id\<close> was not assigned between the two worlds.\<close>

definition same_roi_id :: "'x world \<Rightarrow> 'x world \<Rightarrow> bool" where
  "same_roi_id w w' = (self_roi_id w' = self_roi_id w)"

lemma same_roi_id_refl [simp]: "same_roi_id w w"
  by (simp add: same_roi_id_def)

lemma same_roi_id_trans: "same_roi_id w1 w2 \<Longrightarrow> same_roi_id w2 w3 \<Longrightarrow> same_roi_id w1 w3"
  by (simp add: same_roi_id_def)

lemmas roi_bind = preserves_bind[of same_roi_id, OF same_roi_id_trans]

lemma roi: "preserves undisturbed m \<Longrightarrow> preserves same_roi_id m"
  by (erule preserves_weaken) (simp add: undisturbed_def same_roi_id_def)

lemma roi_create_shoreline_settings:
  "preserves same_roi_id (create_shoreline_settings s r ref)"
  unfolding preserves_def
proof
  fix w :: "'a world"
  from create_shoreline_settings_outcome[of s r ref w]
  show "same_roi_id w (fst (create_shoreline_settings s r ref w))"
    by (auto simp: same_roi_id_def)
qed

lemma roi_extract_shorelines: "preserves same_roi_id (extract_shorelines lib g r s)"
  unfolding extract_shorelines_def
  by (intro roi_bind roi_create_shoreline_settings roi st_getitem_str
        st_get_reference_shoreline st_call preserves_gets preserves_ret) simp_all

lemma init_attributes_result:
  "init_attributes roi_id w =
     (w\<lparr>heap := heap w @ [OGdf VNone [], ODict [], ODict []],
        self_gdf := VRef (length (heap w)),
        self_roi_id := roi_id,
        self_extracted_shorelines := VRef (Suc (length (heap w))),
        self_shoreline_settings := VRef (Suc (Suc (length (heap w))))\<rparr>, Inr ())"
  by (simp add: init_attributes_def bind_def alloc_def set_gdf_def set_roi_id_def
        set_extracted_shorelines_def set_shoreline_settings_def)

lemma detection_calls_extract:
  assumes "extract_shorelines lib g r s w = (w', Inr result)"
  shows "\<exists>cs ev. calls w' = calls w @ cs @ ev
        \<and> filter (\<lambda>c. is_detection (fst c)) cs = []
        \<and> filter (\<lambda>c. is_detection (fst c)) ev = ev
        \<and> SDS_tools_output_to_gdf \<notin> fst ` set ev"
proof -
  from extract_shorelines_success[OF assms]
  obtain w5 inputs metadata n0 n1 e1 n2 e2 n3 where
    nd: "no_detection w w5"
    and w': "w' = w5\<lparr>heap := heap w5 @ n0 @ n1 @ n2 @ n3,
               calls := calls w5 @
                 [(SDS_download_get_metadata, [inputs], Inr metadata),
                  (SDS_shoreline_extract_shorelines,
                     [metadata, self_shoreline_settings w5], Inr e1),
                  (SDS_tools_remove_duplicates, [e1], Inr e2),
                  (SDS_tools_remove_inaccurate_georef, [e2, VInt 10], Inr result)]\<rparr>"
    by (elim exE conjE) (rule that; assumption)
  from nd obtain cs where cs: "calls w5 = calls w @ cs"
    and f: "filter (\<lambda>c. is_detection (fst c)) cs = []"
    by (auto simp: no_detection_def)
  let ?ev = "[(SDS_download_get_metadata, [inputs], Inr metadata),
                  (SDS_shoreline_extract_shorelines,
                     [metadata, self_shoreline_settings w5], Inr e1),
                  (SDS_tools_remove_duplicates, [e1], Inr e2),
                  (SDS_tools_remove_inaccurate_georef, [e2, VInt 10], Inr result)]"
  have "calls w' = calls w @ cs @ ?ev" using w' cs by simp
  moreover have "filter (\<lambda>c. is_detection (fst c)) ?ev = ?ev"
    "SDS_tools_output_to_gdf \<notin> fst ` set ?ev"
    by (simp_all add: is_detection_def)
  ultimately show ?thesis using f by blast
qed

text \<open>
  When the helper's call in the constructor gives a true answer, the constructor raises
  \<^verbatim>\<open>No_Extracted_Shoreline\<close> in the world that call left.
\<close>

lemma init_raises_on_true_answer:
  assumes v: "validate (heap start) roi_id shoreline roi_settings settings = None"
    and e: "extract_shorelines lib shoreline roi_settings settings
              (fst (init_attributes roi_id start)) = (w2, Inr extracted)"
    and g: "getitem_str lib extracted ''shorelines'' (w2\<lparr>self_extracted_shorelines := extracted\<rparr>)
        = (w3, Inr shorelines)"
    and c: "call lib common_is_list_empty [shorelines] w3 = (w4, Inr r)"
    and t: "truthy (heap w4) r = Inr True"
  shows "init lib roi_id shoreline roi_settings settings start
          = (w4, Inl (No_Extracted_Shoreline roi_id))"
    and "SDS_tools_output_to_gdf \<notin> fst ` set (detection_calls start w4)"
proof -
  let ?w1 = "fst (init_attributes roi_id start)"
  have a: "init_attributes roi_id start = (?w1, Inr ())"
    by (simp add: init_attributes_result)
  have r1: "self_roi_id ?w1 = roi_id" and c1: "calls ?w1 = calls start"
    by (simp_all add: init_attributes_result)
  have "self_roi_id w2 = roi_id"
    using preservesD[OF roi_extract_shorelines e] r1 by (simp add: same_roi_id_def)
  then have "self_roi_id w3 = roi_id"
    using preservesD[OF roi[OF st_getitem_str] g] by (simp add: same_roi_id_def)
  then have r4: "self_roi_id w4 = roi_id"
    using preservesD[OF roi[OF st_call] c] by (simp add: same_roi_id_def)
  have s2: "set_extracted_shorelines extracted w2
          = (w2\<lparr>self_extracted_shorelines := extracted\<rparr>, Inr ())"
    by (simp add: set_extracted_shorelines_def)
  have l: "(\<lambda>w. lift (truthy (heap w) r) w) w4 = (w4, Inr True)"
    by (simp add: lift_def t)
  have ext: "init_extraction lib shoreline roi_settings settings ?w1
          = (w4, Inl (No_Extracted_Shoreline roi_id))"
    unfolding init_extraction_def
    by (simp add: bind_Inr[of "extract_shorelines lib shoreline roi_settings settings", OF e]
          bind_Inr[of "set_extracted_shorelines extracted", OF s2]
          bind_Inr[of "getitem_str lib extracted ''shorelines''", OF g]
          bind_Inr[of "call lib common_is_list_empty [shorelines]", OF c]
          bind_Inr[of "\<lambda>w. lift (truthy (heap w) r) w", OF l] raise_def r4)
  show "init lib roi_id shoreline roi_settings settings start
          = (w4, Inl (No_Extracted_Shoreline roi_id))"
    unfolding init_def by (simp add: v bind_Inr[of "init_attributes roi_id", OF a] ext)
  from detection_calls_extract[OF e] obtain cs ev where
    cw2: "calls w2 = calls ?w1 @ cs @ ev"
    and f1: "filter (\<lambda>c. is_detection (fst c)) cs = []"
    and f2: "filter (\<lambda>c. is_detection (fst c)) ev = ev"
    and no: "SDS_tools_output_to_gdf \<notin> fst ` set ev"
    by blast
  from preservesD[OF nd_getitem_str g] obtain cs3 where
    cw3: "calls w3 = calls w2 @ cs3" and f3: "filter (\<lambda>c. is_detection (fst c)) cs3 = []"
    by (auto simp: no_detection_def)
  from c have cw4: "calls w4 = calls w3 @ [(common_is_list_empty, [shorelines], Inr r)]"
    by (auto simp: call_eq_Inr)
  have "detection_calls start w4 = ev"
    unfolding detection_calls_def cw4 cw3 cw2 c1 using f1 f2 f3
    by (simp add: is_detection_def)
  with no show "SDS_tools_output_to_gdf \<notin> fst ` set (detection_calls start w4)"
    by simp
qed

lemma pair_of_snd: "snd p = r \<Longrightarrow> p = (fst p, r)"
  by (metis prod.collapse)

section \<open>The coordinate reference system of the geodataframe\<close>

text \<open>
  \<^verbatim>\<open>GeoDataFrame.to_crs\<close> belongs to geopandas. What the module relies on is that the
  frame it returns carries the CRS it was asked for; the library of the model has this
  property when every answer of \<^verbatim>\<open>to_crs\<close> is such a frame.
\<close>

definition to_crs_sets_crs :: "'x library \<Rightarrow> bool" where
  "to_crs_sets_crs lib =
     (\<forall>h g c new r. lib (Method ''to_crs'') h [g, c] = Inr (new, r) \<longrightarrow>
        (\<exists>cols. deref (h @ new) r = Some (OGdf c cols)))"

lemma call_method_eq_Inr:
  "call_method lib name recv args w = (w', Inr r) \<Longrightarrow>
     \<exists>new. lib (Method name) (heap w) (recv # args) = Inr (new, r) \<and>
           w' = w\<lparr>heap := heap w @ new,
                  calls := calls w @ [(Method name, recv # args, Inr r)]\<rparr>"
  by (auto simp: call_method_def call_eq_Inr split: option.splits obj.splits)

lemma setattr_crs_eq_Inr:
  "setattr_crs g c w = (w', Inr x) \<Longrightarrow>
     \<exists>a c0 cols. g = VRef a \<and> a < length (heap w) \<and> heap w ! a = OGdf c0 cols \<and>
           w' = w\<lparr>heap := (heap w)[a := OGdf c cols]\<rparr>"
  by (auto simp: setattr_crs_def store_def split: val.splits option.splits obj.splits if_splits)

lemma create_geodataframe_success:
  assumes "create_geodataframe lib input_crs output_crs w = (w', Inr r)"
  shows "\<exists>n0 a c0 cols.
      lib SDS_tools_output_to_gdf (heap w) [self_extracted_shorelines w, VStr ''lines'']
        = Inr (n0, VRef a)
    \<and> a < length (heap w @ n0) \<and> (heap w @ n0) ! a = OGdf c0 cols
    \<and> ((output_crs = VNone \<and> r = VRef a \<and> heap w' = (heap w @ n0)[a := OGdf input_crs cols])
       \<or> (output_crs \<noteq> VNone \<and>
           (\<exists>n1. lib (Method ''to_crs'') ((heap w @ n0)[a := OGdf input_crs cols])
                    [VRef a, output_crs] = Inr (n1, r)
                \<and> heap w' = (heap w @ n0)[a := OGdf input_crs cols] @ n1)))"
proof -
  from assms obtain w1 g w2 where
    c: "call lib SDS_tools_output_to_gdf [self_extracted_shorelines w, VStr ''lines''] w
          = (w1, Inr g)"
    and s: "setattr_crs g input_crs w1 = (w2, Inr ())"
    and rest: "(if output_crs \<noteq> VNone then call_method lib ''to_crs'' g [output_crs]
                else ret g) w2 = (w', Inr r)"
    unfolding create_geodataframe_def by (auto simp: bind_eq_Inr)
  from c obtain n0 where n0: "lib SDS_tools_output_to_gdf (heap w)
        [self_extracted_shorelines w, VStr ''lines''] = Inr (n0, g)"
    and h1: "heap w1 = heap w @ n0"
    by (auto simp: call_eq_Inr)
  from setattr_crs_eq_Inr[OF s] h1 obtain a c0 cols where g: "g = VRef a"
    and a: "a < length (heap w @ n0)" and ga: "(heap w @ n0) ! a = OGdf c0 cols"
    and h2: "heap w2 = (heap w @ n0)[a := OGdf input_crs cols]"
    by auto
  show ?thesis
  proof (cases "output_crs = VNone")
    case True
    with rest have "r = VRef a" "heap w' = (heap w @ n0)[a := OGdf input_crs cols]"
      using g h2 by auto
    with True n0 g a ga show ?thesis by blast
  next
    case False
    with rest have "call_method lib ''to_crs'' g [output_crs] w2 = (w', Inr r)" by simp
    from call_method_eq_Inr[OF this] g h2 obtain n1 where
      "lib (Method ''to_crs'') ((heap w @ n0)[a := OGdf input_crs cols])
                    [VRef a, output_crs] = Inr (n1, r)"
      "heap w' = (heap w @ n0)[a := OGdf input_crs cols] @ n1"
      by auto
    with False n0 g a ga show ?thesis by blast
  qed
qed

lemma create_geodataframe_result_crs:
  assumes "to_crs_sets_crs lib"
    and "create_geodataframe lib input_crs output_crs w = (w', Inr g)"
  shows "\<exists>cols. deref (heap w') g
           = Some (OGdf (if output_crs \<noteq> VNone then output_crs else input_crs) cols)"
proof -
  from create_geodataframe_success[OF assms(2)] obtain n0 a c0 cols where
    a: "a < length (heap w @ n0)"
    and alt: "(output_crs = VNone \<and> g = VRef a
               \<and> heap w' = (heap w @ n0)[a := OGdf input_crs cols])
       \<or> (output_crs \<noteq> VNone \<and>
           (\<exists>n1. lib (Method ''to_crs'') ((heap w @ n0)[a := OGdf input_crs cols])
                    [VRef a, output_crs] = Inr (n1, g)
                \<and> heap w' = (heap w @ n0)[a := OGdf input_crs cols] @ n1))"
    by blast
  from alt show ?thesis
  proof (elim disjE conjE exE)
    assume "output_crs = VNone" "g = VRef a"
      "heap w' = (heap w @ n0)[a := OGdf input_crs cols]"
    with a show ?thesis by simp
  next
    fix n1
    assume o: "output_crs \<noteq> VNone"
      and l: "lib (Method ''to_crs'') ((heap w @ n0)[a := OGdf input_crs cols])
                    [VRef a, output_crs] = Inr (n1, g)"
      and h: "heap w' = (heap w @ n0)[a := OGdf input_crs cols] @ n1"
    from assms(1) l obtain cols' where
      "deref ((heap w @ n0)[a := OGdf input_crs cols] @ n1) g = Some (OGdf output_crs cols')"
      unfolding to_crs_sets_crs_def by blast
    with o h show ?thesis by simp
  qed
qed


lemma init_success:
  assumes "init lib roi_id shoreline roi_settings settings start = (w, Inr ())"
  shows "\<exists>wa epsg wb wc g.
      detection_disabled wa
    \<and> getitem_str lib (self_shoreline_settings wa) ''output_epsg'' wa = (wb, Inr epsg)
    \<and> create_geodataframe lib epsg (VStr ''EPSG:4326'') wb = (wc, Inr g)
    \<and> w = wc\<lparr>self_gdf := g\<rparr>"
proof -
  from assms obtain w1 w2 es w3 sl w4 r where
    e: "extract_shorelines lib shoreline roi_settings settings w1 = (w2, Inr es)"
    and g: "getitem_str lib es ''shorelines'' (w2\<lparr>self_extracted_shorelines := es\<rparr>)
              = (w3, Inr sl)"
    and c: "call lib common_is_list_empty [sl] w3 = (w4, Inr r)"
    and rest: "bind (gets self_shoreline_settings) (\<lambda>shoreline_settings.
         bind (getitem_str lib shoreline_settings ''output_epsg'') (\<lambda>output_epsg.
         bind (create_geodataframe lib output_epsg (VStr ''EPSG:4326'')) (\<lambda>g.
         set_gdf g))) w4 = (w, Inr ())"
    unfolding init_def init_extraction_def
    by (auto simp: bind_eq_Inr lift_def set_extracted_shorelines_def
             split: option.splits if_splits)
  from extract_shorelines_establishes e have "detection_disabled w2"
    unfolding establishes_def by blast
  then have "detection_disabled (w2\<lparr>self_extracted_shorelines := es\<rparr>)"
    by (simp add: detection_disabled_def)
  with preservesD[OF kd[OF st_getitem_str] g] have "detection_disabled w3"
    by (simp add: keeps_def)
  with preservesD[OF kd[OF st_call] c] have d4: "detection_disabled w4"
    by (simp add: keeps_def)
  from rest obtain epsg wb wc g where
    "getitem_str lib (self_shoreline_settings w4) ''output_epsg'' w4 = (wb, Inr epsg)"
    "create_geodataframe lib epsg (VStr ''EPSG:4326'') wb = (wc, Inr g)"
    "w = wc\<lparr>self_gdf := g\<rparr>"
    by (auto simp: bind_eq_Inr set_gdf_def)
  with d4 show ?thesis by blast
qed

lemma getitem_str_dict:
  assumes "deref (heap w) t = Some (ODict d)"
    and "getitem_str lib t k w = (w', Inr v)"
  shows "w' = w \<and> map_of d k = Some v"
proof -
  from assms(1) obtain a where "t = VRef a" by (cases t) auto
  with assms show ?thesis
    by (auto simp: getitem_str_def split: option.splits if_splits)
qed

text \<open>
  C5. With a \<^verbatim>\<open>to_crs\<close> that returns a frame in the CRS it is given: whenever
  \<^verbatim>\<open>create_geodataframe(input_crs, output_crs)\<close> returns, it returns a geodataframe whose
  CRS is \<^verbatim>\<open>output_crs\<close> when that is not \<^verbatim>\<open>None\<close>, and \<^verbatim>\<open>input_crs\<close> otherwise. And whenever
  the constructor returns, \<^verbatim>\<open>self.gdf\<close> is a geodataframe in \<^verbatim>\<open>'EPSG:4326'\<close>, the answer of
  \<^verbatim>\<open>to_crs('EPSG:4326')\<close> on a frame whose CRS had been set to
  \<^verbatim>\<open>self.shoreline_settings['output_epsg']\<close>.
\<close>

theorem create_geodataframe_crs:
  "to_crs_sets_crs lib \<longrightarrow>
     (create_geodataframe lib input_crs output_crs w = (w', Inr g) \<longrightarrow>
        (\<exists>cols. deref (heap w') g
            = Some (OGdf (if output_crs \<noteq> VNone then output_crs else input_crs) cols)))
   \<and> (init lib roi_id shoreline roi_settings settings start = (w, Inr ()) \<longrightarrow>
        (\<exists>h a epsg cols new d cols'.
            deref h (self_shoreline_settings w) = Some (ODict d)
          \<and> map_of d ''output_epsg'' = Some epsg
          \<and> deref h (VRef a) = Some (OGdf epsg cols)
          \<and> lib (Method ''to_crs'') h [VRef a, VStr ''EPSG:4326''] = Inr (new, self_gdf w)
          \<and> heap w = h @ new
          \<and> deref (heap w) (self_gdf w) = Some (OGdf (VStr ''EPSG:4326'') cols')))"
proof (intro impI conjI)
  assume "to_crs_sets_crs lib"
    and "create_geodataframe lib input_crs output_crs w = (w', Inr g)"
  then show "\<exists>cols. deref (heap w') g
            = Some (OGdf (if output_crs \<noteq> VNone then output_crs else input_crs) cols)"
    by (rule create_geodataframe_result_crs)
next
  assume contract: "to_crs_sets_crs lib"
    and "init lib roi_id shoreline roi_settings settings start = (w, Inr ())"
  from init_success[OF this(2)] obtain wa epsg wb wc g where
    dd: "detection_disabled wa"
    and gi: "getitem_str lib (self_shoreline_settings wa) ''output_epsg'' wa = (wb, Inr epsg)"
    and cg: "create_geodataframe lib epsg (VStr ''EPSG:4326'') wb = (wc, Inr g)"
    and w: "w = wc\<lparr>self_gdf := g\<rparr>"
    by blast
  from dd obtain d where d: "deref (heap wa) (self_shoreline_settings wa) = Some (ODict d)"
    by (auto simp: detection_disabled_def split: option.splits obj.splits)
  from getitem_str_dict[OF d gi] have wb: "wb = wa" and epsg: "map_of d ''output_epsg'' = Some epsg"
    by simp_all
  from d obtain s where s: "self_shoreline_settings wa = VRef s"
    and sl: "s < length (heap wa)" and hs: "heap wa ! s = ODict d"
    by (cases "self_shoreline_settings wa") (auto split: if_splits)
  have ss: "self_shoreline_settings w = VRef s"
    using preservesD[OF st_create_geodataframe cg] w wb s by (simp add: undisturbed_def)
  from create_geodataframe_success[OF cg] wb obtain n0 a c0 cols n1 where
    a: "a < length (heap wa @ n0)" and ga: "(heap wa @ n0) ! a = OGdf c0 cols"
    and l: "lib (Method ''to_crs'') ((heap wa @ n0)[a := OGdf epsg cols])
                    [VRef a, VStr ''EPSG:4326''] = Inr (n1, g)"
    and h: "heap wc = (heap wa @ n0)[a := OGdf epsg cols] @ n1"
    by auto
  let ?h = "(heap wa @ n0)[a := OGdf epsg cols]"
  from sl hs ga have "s \<noteq> a" by (auto simp: nth_append)
  with sl hs have 1: "deref ?h (self_shoreline_settings w) = Some (ODict d)"
    using ss by (simp add: nth_append)
  from a have 2: "deref ?h (VRef a) = Some (OGdf epsg cols)" by simp
  from l w have 3: "lib (Method ''to_crs'') ?h [VRef a, VStr ''EPSG:4326''] = Inr (n1, self_gdf w)"
    by simp
  from h w have 4: "heap w = ?h @ n1" by simp
  from contract l obtain cols' where "deref (?h @ n1) g = Some (OGdf (VStr ''EPSG:4326'') cols')"
    unfolding to_crs_sets_crs_def by blast
  with h w have 5: "deref (heap w) (self_gdf w) = Some (OGdf (VStr ''EPSG:4326'') cols')"
    by simp
  from 1 epsg 2 3 4 5 show "\<exists>h a epsg cols new d cols'.
            deref h (self_shoreline_settings w) = Some (ODict d)
          \<and> map_of d ''output_epsg'' = Some epsg
          \<and> deref h (VRef a) = Some (OGdf epsg cols)
          \<and> lib (Method ''to_crs'') h [VRef a, VStr ''EPSG:4326''] = Inr (new, self_gdf w)
          \<and> heap w = h @ new
          \<and> deref (heap w) (self_gdf w) = Some (OGdf (VStr ''EPSG:4326'') cols')"
    by blast
qed

lemma example_to_crs: "to_crs_sets_crs (example_lib found)"
  by (auto simp: to_crs_sets_crs_def example_lib_def nth_append
           split: list.splits option.splits obj.splits)

theorem create_geodataframe_crs_witness:
  "to_crs_sets_crs (example_lib True)
   \<and> create_geodataframe (example_lib True) (VStr ''EPSG:32610'') VNone example_instance
       = (fst (create_geodataframe (example_lib True) (VStr ''EPSG:32610'') VNone
                 example_instance), Inr (VRef 20))
   \<and> (\<exists>cols. deref (heap (fst (create_geodataframe (example_lib True) (VStr ''EPSG:32610'')
                                  VNone example_instance))) (VRef 20)
               = Some (OGdf (VStr ''EPSG:32610'') cols))
   \<and> init (example_lib True) (VStr ''21'') (VRef 0) (VRef 1) (VRef 2) example_world
       = (example_instance, Inr ())
   \<and> (\<exists>cols. deref (heap example_instance) (self_gdf example_instance)
               = Some (OGdf (VStr ''EPSG:4326'') cols))"
proof -
  note inst = create_geodataframe_crs[where lib = "example_lib True"
      and input_crs = "VStr ''EPSG:32610''" and output_crs = VNone
      and w = example_instance
      and w' = "fst (create_geodataframe (example_lib True) (VStr ''EPSG:32610'') VNone
                       example_instance)"
      and g = "VRef 20" and roi_id = "VStr ''21''" and shoreline = "VRef 0"
      and roi_settings = "VRef 1" and settings = "VRef 2" and start = example_world]
  have run: "create_geodataframe (example_lib True) (VStr ''EPSG:32610'') VNone example_instance
       = (fst (create_geodataframe (example_lib True) (VStr ''EPSG:32610'') VNone
                 example_instance), Inr (VRef 20))"
    by (rule pair_of_snd) code_simp
  from inst example_to_crs run
  have a: "\<exists>cols. deref (heap (fst (create_geodataframe (example_lib True)
                  (VStr ''EPSG:32610'') VNone example_instance))) (VRef 20)
               = Some (OGdf (VStr ''EPSG:32610'') cols)"
    by simp
  from inst example_to_crs example_init
  have b: "\<exists>cols. deref (heap example_instance) (self_gdf example_instance)
               = Some (OGdf (VStr ''EPSG:4326'') cols)"
    by blast
  from example_to_crs run a example_init b show ?thesis by (intro conjI)
qed

section \<open>The names of the layers\<close>

lemma roi_init_extraction: "preserves same_roi_id (init_extraction lib g r s)"
  unfolding init_extraction_def
  by (intro roi_bind roi_extract_shorelines roi st_set_extracted_shorelines st_getitem_str
        st_call preserves_gets preserves_if preserves_raise st_create_geodataframe st_set_gdf)
     (simp_all add: preserves_def lift_def)

lemma init_roi_id:
  assumes "init lib roi_id shoreline roi_settings settings start = (w, Inr ())"
  shows "isinstance_str roi_id \<and> self_roi_id w = roi_id"
proof -
  from assms have v: "validate (heap start) roi_id shoreline roi_settings settings = None"
    unfolding init_def by (auto simp: bind_eq_Inr raise_def split: option.splits)
  then have s: "isinstance_str roi_id"
    unfolding validate_def by (simp split: if_splits)
  from assms v obtain w1 where
    a: "init_attributes roi_id start = (w1, Inr ())"
    and e: "init_extraction lib shoreline roi_settings settings w1 = (w, Inr ())"
    unfolding init_def by (auto simp: bind_eq_Inr)
  from a have "self_roi_id w1 = roi_id" by (auto simp: init_attributes_result)
  with preservesD[OF roi_init_extraction e] have "self_roi_id w = roi_id"
    by (simp add: same_roi_id_def)
  with s show ?thesis by simp
qed

lemma foreach_layer_names:
  "foreach (\<lambda>date_str w.
             lift (case str_add (heap w) ''ID'' (VStr rid) of
                     Inl e \<Rightarrow> Inl e
                   | Inr s \<Rightarrow> (case str_add (heap w) (s @ ''_'') date_str of
                                 Inl e \<Rightarrow> Inl e
                               | Inr t \<Rightarrow> Inr (VStr t))) w) (map VStr ds) w
     = (w, Inr (map (\<lambda>d. VStr (''ID'' @ rid @ ''_'' @ d)) ds))"
  by (induction ds) (simp_all add: ret_def bind_def lift_def str_add_def)

lemma get_layer_names_result:
  assumes r: "self_roi_id w = VStr rid"
    and g: "deref (heap w) (self_gdf w) = Some (OGdf c cols)"
    and d: "map_of cols ''date'' = Some (map VStr ds)"
  shows "get_layer_names lib w =
           (w\<lparr>heap := heap w @ [OSeries (map VStr ds), OList (map VStr ds),
                                  OList (map (\<lambda>d. VStr (''ID'' @ rid @ ''_'' @ d)) ds)]\<rparr>,
            Inr (VRef (length (heap w) + 2)))"
proof -
  from g obtain a where a: "self_gdf w = VRef a" by (cases "self_gdf w") (auto simp: deref_def)
  let ?w1 = "w\<lparr>heap := heap w @ [OSeries (map VStr ds)]\<rparr>"
  let ?w2 = "w\<lparr>heap := heap w @ [OSeries (map VStr ds), OList (map VStr ds)]\<rparr>"
  have 1: "getitem_str lib (self_gdf w) ''date'' w = (?w1, Inr (VRef (length (heap w))))"
    using g d a by (simp add: getitem_str_def alloc_def)
  have 2: "to_list lib (VRef (length (heap w))) ?w1 = (?w2, Inr (VRef (Suc (length (heap w)))))"
    by (simp add: to_list_def alloc_def deref_def)
  have 3: "py_iter (VRef (Suc (length (heap w)))) ?w2 = (?w2, Inr (map VStr ds))"
    by (simp add: py_iter_def deref_def ret_def nth_append)
  let ?f = "\<lambda>date_str w.
             lift (case str_add (heap w) ''ID'' (VStr rid) of
                     Inl e \<Rightarrow> Inl e
                   | Inr s \<Rightarrow> (case str_add (heap w) (s @ ''_'') date_str of
                                 Inl e \<Rightarrow> Inl e
                               | Inr t \<Rightarrow> Inr (VStr t))) w"
  have 4: "foreach ?f (map VStr ds) ?w2
             = (?w2, Inr (map (\<lambda>d. VStr (''ID'' @ rid @ ''_'' @ d)) ds))"
    by (rule foreach_layer_names)
  show ?thesis
    unfolding get_layer_names_def
    by (simp add: r bind_Inr[of "getitem_str lib (self_gdf w) ''date''", OF 1]
          bind_Inr[of "to_list lib (VRef (length (heap w)))", OF 2]
          bind_Inr[of "py_iter (VRef (Suc (length (heap w))))", OF 3]
          bind_Inr[of "foreach ?f (map VStr ds)", OF 4] alloc_def)
qed


lemma roi_run: "preserves same_roi_id (run lib op)"
proof (cases op)
  case (Extract_shorelines g r s)
  then show ?thesis by (simp add: roi_extract_shorelines)
next
  case (Create_shoreline_settings s r ref)
  have "preserves same_roi_id (bind (create_shoreline_settings s r ref) (\<lambda>_. ret VNone))"
    by (intro roi_bind roi_create_shoreline_settings preserves_ret) simp_all
  with Create_shoreline_settings show ?thesis by simp
next
  case (Create_geodataframe i out)
  then show ?thesis by (simp add: roi st_create_geodataframe)
next
  case (Save_to_file s f)
  have "preserves same_roi_id (bind (save_to_file s f) (\<lambda>_. ret VNone))"
    by (intro roi_bind roi[OF st_save_to_file] preserves_ret) simp_all
  with Save_to_file show ?thesis by simp
next
  case (Style_layer g n c)
  then show ?thesis by (simp add: roi st_style_layer)
next
  case Get_layer_names
  then show ?thesis by (simp add: roi st_get_layer_names)
next
  case Get_styled_layers
  then show ?thesis by (simp add: roi st_get_styled_layers)
qed

text \<open>
  C10. The constructor accepts only a string as \<^verbatim>\<open>roi_id\<close> and stores it in
  \<^verbatim>\<open>self.roi_id\<close>, and no method assigns that attribute. On an instance whose
  \<^verbatim>\<open>self.roi_id\<close> is the string \<open>rid\<close> and whose \<^verbatim>\<open>self.gdf\<close> is a geodataframe (every
  column with one value per row) with a \<^verbatim>\<open>'date'\<close> column of strings \<open>ds\<close>,
  \<^verbatim>\<open>get_layer_names\<close> returns a list with one string per row, the i-th being
  \<^verbatim>\<open>'ID' + rid + '_' + ds[i]\<close>, in the order of the rows.
\<close>

theorem get_layer_names_format:
  "(init lib roi_id shoreline roi_settings settings start = (w, Inr ()) \<longrightarrow>
      isinstance_str roi_id \<and> self_roi_id w = roi_id)
   \<and> self_roi_id (fst (run lib op w)) = self_roi_id w
   \<and> (self_roi_id w = VStr rid
       \<and> deref (heap w) (self_gdf w) = Some (OGdf c cols)
       \<and> (\<forall>col \<in> set cols. length (snd col) = gdf_nrows cols)
       \<and> map_of cols ''date'' = Some (map VStr ds) \<longrightarrow>
      (\<exists>w' r names.
          run lib Get_layer_names w = (w', Inr r)
        \<and> deref (heap w') r = Some (OList names)
        \<and> length names = gdf_nrows cols
        \<and> names = map (\<lambda>d. VStr (''ID'' @ rid @ ''_'' @ d)) ds))"
proof (intro conjI impI)
  assume "init lib roi_id shoreline roi_settings settings start = (w, Inr ())"
  then show "isinstance_str roi_id" "self_roi_id w = roi_id"
    using init_roi_id by blast+
next
  show "self_roi_id (fst (run lib op w)) = self_roi_id w"
    using roi_run[of lib op] by (simp add: preserves_def same_roi_id_def)
next
  assume a: "self_roi_id w = VStr rid
       \<and> deref (heap w) (self_gdf w) = Some (OGdf c cols)
       \<and> (\<forall>col \<in> set cols. length (snd col) = gdf_nrows cols)
       \<and> map_of cols ''date'' = Some (map VStr ds)"
  let ?names = "map (\<lambda>d. VStr (''ID'' @ rid @ ''_'' @ d)) ds"
  let ?w' = "w\<lparr>heap := heap w @ [OSeries (map VStr ds), OList (map VStr ds), OList ?names]\<rparr>"
  from a have run: "run lib Get_layer_names w = (?w', Inr (VRef (length (heap w) + 2)))"
    by (simp add: get_layer_names_result)
  have d: "deref (heap ?w') (VRef (length (heap w) + 2)) = Some (OList ?names)"
    by (simp add: deref_def nth_append)
  from a have "(''date'', map VStr ds) \<in> set cols" by (auto dest: map_of_SomeD)
  with a have "length (map VStr ds) = gdf_nrows cols" by fastforce
  then have l: "length ?names = gdf_nrows cols" by simp
  from run d l show "\<exists>w' r names.
          run lib Get_layer_names w = (w', Inr r)
        \<and> deref (heap w') r = Some (OList names)
        \<and> length names = gdf_nrows cols
        \<and> names = map (\<lambda>d. VStr (''ID'' @ rid @ ''_'' @ d)) ds"
    by blast
qed

lemma example_gdf:
  "self_roi_id example_instance = VStr ''21''
   \<and> deref (heap example_instance) (self_gdf example_instance)
       = Some (OGdf (VStr ''EPSG:4326'') [(''date'', [VStr ''2018-12-31 19:03:17''])])"
  by code_simp

theorem get_layer_names_format_witness:
  "init (example_lib True) (VStr ''21'') (VRef 0) (VRef 1) (VRef 2) example_world
     = (example_instance, Inr ())
   \<and> isinstance_str (VStr ''21'')
   \<and> self_roi_id example_instance = VStr ''21''
   \<and> self_roi_id (fst (run (example_lib True) Get_styled_layers example_instance)) = VStr ''21''
   \<and> deref (heap example_instance) (self_gdf example_instance)
       = Some (OGdf (VStr ''EPSG:4326'') [(''date'', [VStr ''2018-12-31 19:03:17''])])
   \<and> (\<exists>w'. run (example_lib True) Get_layer_names example_instance = (w', Inr (VRef 22))
          \<and> deref (heap w') (VRef 22) = Some (OList [VStr ''ID21_2018-12-31 19:03:17'']))"
proof -
  note inst = get_layer_names_format[where lib = "example_lib True" and roi_id = "VStr ''21''"
      and shoreline = "VRef 0" and roi_settings = "VRef 1" and settings = "VRef 2"
      and start = example_world and w = example_instance and op = Get_styled_layers
      and rid = "''21''" and c = "VStr ''EPSG:4326''"
      and cols = "[(''date'', [VStr ''2018-12-31 19:03:17''])]"
      and ds = "[''2018-12-31 19:03:17'']"]
  from inst example_init have a: "isinstance_str (VStr ''21'')"
    and b: "self_roi_id example_instance = VStr ''21''"
    by blast+
  from inst b
  have c: "self_roi_id (fst (run (example_lib True) Get_styled_layers example_instance))
             = VStr ''21''"
    by simp
  note g = example_gdf[THEN conjunct2]
  have "self_roi_id example_instance = VStr ''21''
       \<and> deref (heap example_instance) (self_gdf example_instance)
           = Some (OGdf (VStr ''EPSG:4326'') [(''date'', [VStr ''2018-12-31 19:03:17''])])
       \<and> (\<forall>col \<in> set [(''date'', [VStr ''2018-12-31 19:03:17''])].
             length (snd col) = gdf_nrows [(''date'', [VStr ''2018-12-31 19:03:17''])])
       \<and> map_of [(''date'', [VStr ''2018-12-31 19:03:17''])] ''date''
           = Some (map VStr [''2018-12-31 19:03:17''])"
    using b g by (simp add: gdf_nrows_def)
  with inst obtain w' r where
    run: "run (example_lib True) Get_layer_names example_instance = (w', Inr r)"
    and d: "deref (heap w') r = Some (OList [VStr ''ID21_2018-12-31 19:03:17''])"
    by auto
  from run example_layer_names have "r = VRef 22" by simp
  with run d have e: "\<exists>w'. run (example_lib True) Get_layer_names example_instance
            = (w', Inr (VRef 22))
          \<and> deref (heap w') (VRef 22) = Some (OList [VStr ''ID21_2018-12-31 19:03:17''])"
    by blast
  from example_init a b c g e show ?thesis by (intro conjI)
qed

section \<open>No shoreline, no instance\<close>

text \<open>
  \<^verbatim>\<open>common.is_list_empty\<close> is a helper of the package, outside this file. The
  constructor relies on it to answer whether the list it is given is empty; the library
  of the model has this property when, on every list of the store, the helper returns
  that boolean.
\<close>

definition is_list_empty_tests_emptiness :: "'x library \<Rightarrow> bool" where
  "is_list_empty_tests_emptiness lib =
     (\<forall>h l xs. deref h l = Some (OList xs) \<longrightarrow>
        (\<exists>new. lib common_is_list_empty h [l] = Inr (new, VBool (xs = []))))"

definition calls_grow :: "'x world \<Rightarrow> 'x world \<Rightarrow> bool" where
  "calls_grow w w' = (\<exists>cs. calls w' = calls w @ cs)"

lemma calls_grow_refl [simp]: "calls_grow w w"
  by (simp add: calls_grow_def)

lemma calls_grow_trans: "calls_grow w1 w2 \<Longrightarrow> calls_grow w2 w3 \<Longrightarrow> calls_grow w1 w3"
  by (auto simp: calls_grow_def)

lemmas cg_bind = preserves_bind[of calls_grow, OF calls_grow_trans]

lemma cg: "preserves no_detection m \<Longrightarrow> preserves calls_grow m"
  by (erule preserves_weaken) (auto simp: no_detection_def calls_grow_def)

lemma cg_call: "preserves calls_grow (call lib f args)"
  by (auto simp: preserves_def calls_grow_def call_def split: sum.splits)

lemma cg_setattr_crs: "preserves calls_grow (setattr_crs v c)"
  by (auto simp: preserves_def calls_grow_def setattr_crs_def store_def raise_def
           split: val.splits option.splits obj.splits)

lemma cg_create_geodataframe: "preserves calls_grow (create_geodataframe lib i out)"
  unfolding create_geodataframe_def
  by (intro cg_bind preserves_gets cg_call cg_setattr_crs preserves_if cg[OF nd_call_method]
        preserves_ret) simp_all

lemma init_success_steps:
  assumes "init lib roi_id shoreline roi_settings settings start = (w, Inr ())"
  shows "\<exists>w2 extracted w3 shorelines w4 r.
      extract_shorelines lib shoreline roi_settings settings (fst (init_attributes roi_id start))
        = (w2, Inr extracted)
    \<and> getitem_str lib extracted ''shorelines'' (w2\<lparr>self_extracted_shorelines := extracted\<rparr>)
        = (w3, Inr shorelines)
    \<and> call lib common_is_list_empty [shorelines] w3 = (w4, Inr r)
    \<and> truthy (heap w4) r = Inr False
    \<and> calls_grow start w3 \<and> calls_grow w4 w"
proof -
  from assms obtain w2 es w3 sl w4 r where
    e: "extract_shorelines lib shoreline roi_settings settings
          (fst (init_attributes roi_id start)) = (w2, Inr es)"
    and g: "getitem_str lib es ''shorelines'' (w2\<lparr>self_extracted_shorelines := es\<rparr>)
              = (w3, Inr sl)"
    and c: "call lib common_is_list_empty [sl] w3 = (w4, Inr r)"
    and t: "truthy (heap w4) r = Inr False"
    and rest: "bind (gets self_shoreline_settings) (\<lambda>shoreline_settings.
         bind (getitem_str lib shoreline_settings ''output_epsg'') (\<lambda>output_epsg.
         bind (create_geodataframe lib output_epsg (VStr ''EPSG:4326'')) (\<lambda>g.
         set_gdf g))) w4 = (w, Inr ())"
    unfolding init_def init_extraction_def
    by (auto simp: bind_eq_Inr lift_def set_extracted_shorelines_def
             split: option.splits if_splits)
  have "preserves calls_grow (bind (gets self_shoreline_settings) (\<lambda>shoreline_settings.
         bind (getitem_str lib shoreline_settings ''output_epsg'') (\<lambda>output_epsg.
         bind (create_geodataframe lib output_epsg (VStr ''EPSG:4326'')) (\<lambda>g.
         set_gdf g))))"
    by (intro cg_bind preserves_gets cg[OF nd_getitem_str] cg_create_geodataframe)
       (simp_all add: preserves_def set_gdf_def calls_grow_def)
  from preservesD[OF this rest] have after: "calls_grow w4 w" .
  from detection_calls_extract[OF e] have "calls_grow (fst (init_attributes roi_id start)) w2"
    by (auto simp: calls_grow_def)
  then have "calls_grow start (w2\<lparr>self_extracted_shorelines := es\<rparr>)"
    by (simp add: calls_grow_def init_attributes_result)
  with preservesD[OF cg[OF nd_getitem_str] g] have "calls_grow start w3"
    by (rule calls_grow_trans[rotated])
  with e g c t after show ?thesis by blast
qed


text \<open>
  C9. The helper \<^verbatim>\<open>common.is_list_empty\<close> is not part of this file; it is a function of
  the library, taken to answer whether the list it is given is empty. Then: if the
  arguments pass the checks, the extraction (with its two post-filters) returns
  \<open>extracted\<close>, and \<^verbatim>\<open>extracted['shorelines']\<close> is the empty list, the constructor raises
  \<^verbatim>\<open>No_Extracted_Shoreline\<close> with the \<^verbatim>\<open>roi_id\<close> it was given, and
  \<^verbatim>\<open>SDS_tools.output_to_gdf\<close> has not been called. And if the constructor returns, its
  extraction returned a dictionary whose \<^verbatim>\<open>'shorelines'\<close> is not the empty list: the
  helper was called on it during the construction and gave a false answer.
\<close>

theorem init_raises_without_shorelines:
  "is_list_empty_tests_emptiness lib \<longrightarrow>
   (validate (heap start) roi_id shoreline roi_settings settings = None
    \<and> extract_shorelines lib shoreline roi_settings settings (fst (init_attributes roi_id start))
        = (w2, Inr extracted)
    \<and> getitem_str lib extracted ''shorelines'' (w2\<lparr>self_extracted_shorelines := extracted\<rparr>)
        = (w3, Inr shorelines)
    \<and> deref (heap w3) shorelines = Some (OList [])
    \<longrightarrow> (\<exists>w4. init lib roi_id shoreline roi_settings settings start
                = (w4, Inl (No_Extracted_Shoreline roi_id))
            \<and> SDS_tools_output_to_gdf \<notin> fst ` set (detection_calls start w4)))
   \<and> (init lib roi_id shoreline roi_settings settings start = (w, Inr ())
      \<longrightarrow> (\<exists>w2 extracted w3 shorelines w4 r.
             extract_shorelines lib shoreline roi_settings settings
               (fst (init_attributes roi_id start)) = (w2, Inr extracted)
           \<and> getitem_str lib extracted ''shorelines''
               (w2\<lparr>self_extracted_shorelines := extracted\<rparr>) = (w3, Inr shorelines)
           \<and> deref (heap w3) shorelines \<noteq> Some (OList [])
           \<and> call lib common_is_list_empty [shorelines] w3 = (w4, Inr r)
           \<and> truthy (heap w4) r = Inr False
           \<and> (common_is_list_empty, [shorelines], Inr r)
                 \<in> set (drop (length (calls start)) (calls w))))"
proof (intro impI conjI; (elim conjE)?)
  assume contract: "is_list_empty_tests_emptiness lib"
    and v: "validate (heap start) roi_id shoreline roi_settings settings = None"
    and e: "extract_shorelines lib shoreline roi_settings settings
              (fst (init_attributes roi_id start)) = (w2, Inr extracted)"
    and g: "getitem_str lib extracted ''shorelines''
              (w2\<lparr>self_extracted_shorelines := extracted\<rparr>) = (w3, Inr shorelines)"
    and d: "deref (heap w3) shorelines = Some (OList [])"
  from contract d obtain new where
    "lib common_is_list_empty (heap w3) [shorelines] = Inr (new, VBool True)"
    unfolding is_list_empty_tests_emptiness_def by fastforce
  then have c: "call lib common_is_list_empty [shorelines] w3
      = (w3\<lparr>heap := heap w3 @ new,
             calls := calls w3 @ [(common_is_list_empty, [shorelines], Inr (VBool True))]\<rparr>,
         Inr (VBool True))"
    by (simp add: call_def)
  have t: "truthy (heap (w3\<lparr>heap := heap w3 @ new,
             calls := calls w3 @ [(common_is_list_empty, [shorelines], Inr (VBool True))]\<rparr>))
            (VBool True) = Inr True"
    by (simp add: truthy_def)
  from init_raises_on_true_answer[OF v e g c t]
  show "\<exists>w4. init lib roi_id shoreline roi_settings settings start
                = (w4, Inl (No_Extracted_Shoreline roi_id))
            \<and> SDS_tools_output_to_gdf \<notin> fst ` set (detection_calls start w4)"
    by blast
next
  assume contract: "is_list_empty_tests_emptiness lib"
    and i: "init lib roi_id shoreline roi_settings settings start = (w, Inr ())"
  from init_success_steps[OF i] obtain w2 extracted w3 shorelines w4 r where
    e: "extract_shorelines lib shoreline roi_settings settings
          (fst (init_attributes roi_id start)) = (w2, Inr extracted)"
    and g: "getitem_str lib extracted ''shorelines''
              (w2\<lparr>self_extracted_shorelines := extracted\<rparr>) = (w3, Inr shorelines)"
    and c: "call lib common_is_list_empty [shorelines] w3 = (w4, Inr r)"
    and t: "truthy (heap w4) r = Inr False"
    and before: "calls_grow start w3" and after: "calls_grow w4 w"
    by blast
  have ne: "deref (heap w3) shorelines \<noteq> Some (OList [])"
  proof
    assume "deref (heap w3) shorelines = Some (OList [])"
    with contract obtain new where
      "lib common_is_list_empty (heap w3) [shorelines] = Inr (new, VBool True)"
      unfolding is_list_empty_tests_emptiness_def by fastforce
    with c have "r = VBool True" by (simp add: call_def)
    with t show False by (simp add: truthy_def)
  qed
  from c have c4: "calls w4 = calls w3 @ [(common_is_list_empty, [shorelines], Inr r)]"
    by (auto simp: call_eq_Inr)
  from before obtain pre where pre: "calls w3 = calls start @ pre"
    by (auto simp: calls_grow_def)
  from after obtain post where post: "calls w = calls w4 @ post"
    by (auto simp: calls_grow_def)
  have m: "(common_is_list_empty, [shorelines], Inr r)
             \<in> set (drop (length (calls start)) (calls w))"
    by (simp add: post c4 pre)
  from e g ne c t m show "\<exists>w2 extracted w3 shorelines w4 r.
             extract_shorelines lib shoreline roi_settings settings
               (fst (init_attributes roi_id start)) = (w2, Inr extracted)
           \<and> getitem_str lib extracted ''shorelines''
               (w2\<lparr>self_extracted_shorelines := extracted\<rparr>) = (w3, Inr shorelines)
           \<and> deref (heap w3) shorelines \<noteq> Some (OList [])
           \<and> call lib common_is_list_empty [shorelines] w3 = (w4, Inr r)
           \<and> truthy (heap w4) r = Inr False
           \<and> (common_is_list_empty, [shorelines], Inr r)
                 \<in> set (drop (length (calls start)) (calls w))"
    by blast
qed


lemma example_is_list_empty: "is_list_empty_tests_emptiness (example_lib found)"
  by (simp add: is_list_empty_tests_emptiness_def example_lib_def)

theorem init_raises_without_shorelines_witness:
  "is_list_empty_tests_emptiness (example_lib False)
   \<and> validate (heap example_world) (VStr ''21'') (VRef 0) (VRef 1) (VRef 2) = None
   \<and> (\<exists>w2 w3.
        extract_shorelines (example_lib False) (VRef 0) (VRef 1) (VRef 2)
          (fst (init_attributes (VStr ''21'') example_world)) = (w2, Inr (VRef 17))
      \<and> getitem_str (example_lib False) (VRef 17) ''shorelines''
          (w2\<lparr>self_extracted_shorelines := VRef 17\<rparr>) = (w3, Inr (VRef 16))
      \<and> deref (heap w3) (VRef 16) = Some (OList []))
   \<and> (\<exists>w4. init (example_lib False) (VStr ''21'') (VRef 0) (VRef 1) (VRef 2) example_world
               = (w4, Inl (No_Extracted_Shoreline (VStr ''21'')))
           \<and> SDS_tools_output_to_gdf \<notin> fst ` set (detection_calls example_world w4))
   \<and> is_list_empty_tests_emptiness (example_lib True)
   \<and> init (example_lib True) (VStr ''21'') (VRef 0) (VRef 1) (VRef 2) example_world
          = (example_instance, Inr ())
   \<and> (\<exists>w2 extracted w3 shorelines w4 r.
         extract_shorelines (example_lib True) (VRef 0) (VRef 1) (VRef 2)
           (fst (init_attributes (VStr ''21'') example_world)) = (w2, Inr extracted)
       \<and> getitem_str (example_lib True) extracted ''shorelines''
           (w2\<lparr>self_extracted_shorelines := extracted\<rparr>) = (w3, Inr shorelines)
       \<and> deref (heap w3) shorelines \<noteq> Some (OList [])
       \<and> call (example_lib True) common_is_list_empty [shorelines] w3 = (w4, Inr r)
       \<and> truthy (heap w4) r = Inr False
       \<and> (common_is_list_empty, [shorelines], Inr r)
             \<in> set (drop (length (calls example_world)) (calls example_instance)))"
proof -
  let ?w1 = "fst (init_attributes (VStr ''21'') example_world)"
  let ?w2 = "fst (extract_shorelines (example_lib False) (VRef 0) (VRef 1) (VRef 2) ?w1)"
  let ?w3 = "fst (getitem_str (example_lib False) (VRef 17) ''shorelines''
                      (?w2\<lparr>self_extracted_shorelines := VRef 17\<rparr>))"
  have v: "validate (heap example_world) (VStr ''21'') (VRef 0) (VRef 1) (VRef 2) = None"
    by code_simp
  have e: "extract_shorelines (example_lib False) (VRef 0) (VRef 1) (VRef 2) ?w1
             = (?w2, Inr (VRef 17))"
    by (rule pair_of_snd) code_simp
  have g: "getitem_str (example_lib False) (VRef 17) ''shorelines''
          (?w2\<lparr>self_extracted_shorelines := VRef 17\<rparr>) = (?w3, Inr (VRef 16))"
    by (rule pair_of_snd) code_simp
  have d: "deref (heap ?w3) (VRef 16) = Some (OList [])"
    by code_simp
  note inst = init_raises_without_shorelines[where lib = "example_lib False"
      and roi_id = "VStr ''21''" and shoreline = "VRef 0" and roi_settings = "VRef 1"
      and settings = "VRef 2" and start = example_world and ?w2.0 = ?w2
      and extracted = "VRef 17" and ?w3.0 = ?w3 and shorelines = "VRef 16"]
  from inst example_is_list_empty[of False] v e g d
  have raised: "\<exists>w4. init (example_lib False) (VStr ''21'') (VRef 0) (VRef 1) (VRef 2)
                      example_world = (w4, Inl (No_Extracted_Shoreline (VStr ''21'')))
           \<and> SDS_tools_output_to_gdf \<notin> fst ` set (detection_calls example_world w4)"
    by blast
  have steps: "\<exists>w2 w3.
        extract_shorelines (example_lib False) (VRef 0) (VRef 1) (VRef 2)
          (fst (init_attributes (VStr ''21'') example_world)) = (w2, Inr (VRef 17))
      \<and> getitem_str (example_lib False) (VRef 17) ''shorelines''
          (w2\<lparr>self_extracted_shorelines := VRef 17\<rparr>) = (w3, Inr (VRef 16))
      \<and> deref (heap w3) (VRef 16) = Some (OList [])"
    by (intro exI conjI, rule e, rule g, rule d)
  note inst2 = init_raises_without_shorelines[where lib = "example_lib True"
      and roi_id = "VStr ''21''" and shoreline = "VRef 0" and roi_settings = "VRef 1"
      and settings = "VRef 2" and start = example_world and w = example_instance]
  from inst2 example_is_list_empty[of True] example_init
  have second: "\<exists>w2 extracted w3 shorelines w4 r.
         extract_shorelines (example_lib True) (VRef 0) (VRef 1) (VRef 2)
           (fst (init_attributes (VStr ''21'') example_world)) = (w2, Inr extracted)
       \<and> getitem_str (example_lib True) extracted ''shorelines''
           (w2\<lparr>self_extracted_shorelines := extracted\<rparr>) = (w3, Inr shorelines)
       \<and> deref (heap w3) shorelines \<noteq> Some (OList [])
       \<and> call (example_lib True) common_is_list_empty [shorelines] w3 = (w4, Inr r)
       \<and> truthy (heap w4) r = Inr False
       \<and> (common_is_list_empty, [shorelines], Inr r)
             \<in> set (drop (length (calls example_world)) (calls example_instance))"
    by blast
  from example_is_list_empty[of False] v steps raised example_is_list_empty[of True]
    example_init second
  show ?thesis by (intro conjI)
qed

section \<open>Files are written, never read\<close>

text \<open>
  The only statement of the module that touches the file system is
  \<^verbatim>\<open>self.gdf.to_file(...)\<close> in \<^verbatim>\<open>save_to_file\<close>, which writes. Two worlds that differ at
  most in their files are told apart by no statement: a statement that does not tell
  them apart is blind to the files.
\<close>

definition same_but_files :: "'x world \<Rightarrow> 'x world \<Rightarrow> bool" where
  "same_but_files w1 w2 =
     (heap w1 = heap w2 \<and> calls w1 = calls w2 \<and> stdout w1 = stdout w2 \<and>
      self_gdf w1 = self_gdf w2 \<and> self_roi_id w1 = self_roi_id w2 \<and>
      self_extracted_shorelines w1 = self_extracted_shorelines w2 \<and>
      self_shoreline_settings w1 = self_shoreline_settings w2)"

definition file_blind :: "('x, 'a) prog \<Rightarrow> bool" where
  "file_blind m =
     (\<forall>w1 w2. same_but_files w1 w2 \<longrightarrow>
        same_but_files (fst (m w1)) (fst (m w2)) \<and> snd (m w1) = snd (m w2))"







lemma fb_heap: "(\<And>h. file_blind (m h)) \<Longrightarrow> file_blind (\<lambda>w. m (heap w) w)"
  unfolding file_blind_def same_but_files_def by metis








lemma fb_store: "file_blind (store a ob)"
  by (simp add: file_blind_def store_def same_but_files_def)











































end
